theory Spec2Isabelle
  imports Complex_Main "HOL-Library.Word" "HOL-Library.Signed_Division"
begin

section \<open>Primitive types of decoder/common.h\<close>

text \<open>
  \<open>Int32\<close> is a 32-bit two's complement integer: \<open>+\<close>, \<open>-\<close> and \<open>*\<close> wrap around,
  \<open>sint\<close> reads the value, \<open>\<le>s\<close> and \<open><s\<close> are the signed comparisons of C++.
  C++ integer division truncates towards zero. A zero divisor, and the quotient of
  the least integer by \<open>-1\<close>, which does not fit in 32 bits, are checked by the
  caller below, where the C++ program would trap.
\<close>

type_synonym Int32 = "32 word"

definition Int32_div :: "Int32 \<Rightarrow> Int32 \<Rightarrow> Int32" where
  "Int32_div a b = word_of_int (sint a sdiv sint b)"

text \<open>
  \<open>Float32\<close>: the special values of IEEE 754 are kept (infinities, not-a-number),
  finite values are real numbers, so rounding is abstracted away and the two signed
  zeros are one value \<open>Finite 0\<close>. The operations follow the IEEE rules for special
  values: a comparison with \<open>NaN\<close> is false, \<open>0 / 0\<close>, \<open>\<infinity> / \<infinity>\<close>, \<open>0 * \<infinity>\<close>, \<open>\<infinity> - \<infinity>\<close>
  and \<open>sin \<infinity>\<close> are \<open>NaN\<close>, a non-zero finite value divided by zero is an infinity.
\<close>

datatype Float32 = Finite real | PInf | NInf | NaN

fun Float32_le :: "Float32 \<Rightarrow> Float32 \<Rightarrow> bool" where
  "Float32_le NaN _ = False"
| "Float32_le _ NaN = False"
| "Float32_le (Finite x) (Finite y) = (x \<le> y)"
| "Float32_le NInf _ = True"
| "Float32_le _ PInf = True"
| "Float32_le _ _ = False"

fun Float32_less :: "Float32 \<Rightarrow> Float32 \<Rightarrow> bool" where
  "Float32_less NaN _ = False"
| "Float32_less _ NaN = False"
| "Float32_less (Finite x) (Finite y) = (x < y)"
| "Float32_less PInf _ = False"
| "Float32_less _ NInf = False"
| "Float32_less _ _ = True"

fun Float32_add :: "Float32 \<Rightarrow> Float32 \<Rightarrow> Float32" where
  "Float32_add NaN _ = NaN"
| "Float32_add _ NaN = NaN"
| "Float32_add (Finite x) (Finite y) = Finite (x + y)"
| "Float32_add PInf NInf = NaN"
| "Float32_add NInf PInf = NaN"
| "Float32_add PInf _ = PInf"
| "Float32_add _ PInf = PInf"
| "Float32_add NInf _ = NInf"
| "Float32_add _ NInf = NInf"

fun Float32_mult :: "Float32 \<Rightarrow> Float32 \<Rightarrow> Float32" where
  "Float32_mult NaN _ = NaN"
| "Float32_mult _ NaN = NaN"
| "Float32_mult (Finite x) (Finite y) = Finite (x * y)"
| "Float32_mult (Finite x) PInf = (if x = 0 then NaN else if 0 < x then PInf else NInf)"
| "Float32_mult (Finite x) NInf = (if x = 0 then NaN else if 0 < x then NInf else PInf)"
| "Float32_mult PInf (Finite y) = (if y = 0 then NaN else if 0 < y then PInf else NInf)"
| "Float32_mult NInf (Finite y) = (if y = 0 then NaN else if 0 < y then NInf else PInf)"
| "Float32_mult PInf PInf = PInf"
| "Float32_mult PInf NInf = NInf"
| "Float32_mult NInf PInf = NInf"
| "Float32_mult NInf NInf = PInf"

fun Float32_div :: "Float32 \<Rightarrow> Float32 \<Rightarrow> Float32" where
  "Float32_div NaN _ = NaN"
| "Float32_div _ NaN = NaN"
| "Float32_div (Finite x) (Finite y) =
     (if y = 0 then (if x = 0 then NaN else if 0 < x then PInf else NInf)
      else Finite (x / y))"
| "Float32_div (Finite x) _ = Finite 0"
| "Float32_div PInf (Finite y) = (if 0 \<le> y then PInf else NInf)"
| "Float32_div NInf (Finite y) = (if 0 \<le> y then NInf else PInf)"
| "Float32_div _ _ = NaN"

fun Float32_sin :: "Float32 \<Rightarrow> Float32" where
  "Float32_sin (Finite x) = Finite (sin x)"
| "Float32_sin _ = NaN"

fun is_finite :: "Float32 \<Rightarrow> bool" where
  "is_finite (Finite x) = True"
| "is_finite _ = False"

definition Float32_of_Int32 :: "Int32 \<Rightarrow> Float32" where
  "Float32_of_Int32 i = Finite (real_of_int (sint i))"

text \<open>The constant \<open>PI\<close> of decoder/common.h, which is not part of signal.h.\<close>

definition PI :: Float32 where
  "PI = Finite pi"

text \<open>
  \<open>ASSERT(c)\<close> ends the process when \<open>c\<close> is false. A run of the program is a
  value of \<open>error + 'a\<close>: \<open>Inl\<close> is the way the run ended early.
  \<open>DivisionByZero\<close> is an integer division by zero, \<open>DivisionOverflow\<close> the
  division of the least integer by \<open>-1\<close>, \<open>OutOfRange\<close> a read or write
  outside a buffer, \<open>BadArrayNewLength\<close> the exception \<open>std::bad_array_new_length\<close>
  of an array allocation of negative size, which nothing in signal.h catches.
\<close>

datatype error =
  AssertionFailed | DivisionByZero | DivisionOverflow | OutOfRange | BadArrayNewLength

definition ASSERT :: "bool \<Rightarrow> error + unit" where
  "ASSERT c = (if c then Inr () else Inl AssertionFailed)"

text \<open>
  \<open>new Float32[n]\<close>: a fresh array of \<open>n\<close> cells, or the exception when \<open>n\<close> is
  negative. C++ leaves the cells indeterminate; in \<open>Float32_array n\<close> they hold
  \<open>Finite 0\<close>. Exhaustion of the memory is not modelled.
\<close>

definition Float32_array :: "Int32 \<Rightarrow> Float32 list" where
  "Float32_array n = replicate (nat (sint n)) (Finite 0)"

definition new_Float32 :: "Int32 \<Rightarrow> error + Float32 list" where
  "new_Float32 n = (if n <s 0 then Inl BadArrayNewLength else Inr (Float32_array n))"

text \<open>\<open>LOG_WARN << a << n << b << m\<close>: a warning written to the log; the run goes on.\<close>

datatype log_entry = LOG_WARN string Int32 string Int32

text \<open>
  Modelled from the spec: the enumeration \<open>WindowType\<close> is declared in
  decoder/common.h, which is not part of signal.h. signal.h names \<open>kNone\<close> and
  \<open>kHamm\<close>; the spec lists "none/rectangular/Hamming/Hanning".
\<close>

datatype WindowType = kNone | kRect | kHamm | kHann

section \<open>Helper routines declared in signal.h, whose bodies are elsewhere\<close>

text \<open>
  The routines that signal.h only declares and that the constructors call are
  parameters of the model: each field gives the values the routine leaves in its
  output buffer.
\<close>

record externals =
  RoundUpToNearestPowerOfTwo :: "Int32 \<Rightarrow> Int32"
  ComputeWindow :: "Int32 \<Rightarrow> WindowType \<Rightarrow> Float32 list"
  ComputeMelFilters :: "Int32 \<Rightarrow> Int32 \<Rightarrow> Int32 \<Rightarrow> Int32 \<Rightarrow> Int32 \<Rightarrow> Float32 list list"
  ComputeDctMatrix :: "Int32 \<Rightarrow> Int32 \<Rightarrow> Float32 list"

section \<open>FrameOpts\<close>

record FrameOpts =
  frame_length :: Int32
  frame_shift :: Int32
  sample_rate :: Int32
  window_type :: WindowType
  preemph_coeff :: Float32
  remove_dc :: bool

definition FrameOpts_new ::
  "Int32 \<Rightarrow> Int32 \<Rightarrow> Int32 \<Rightarrow> Float32 \<Rightarrow> WindowType \<Rightarrow> bool \<Rightarrow> FrameOpts" where
  "FrameOpts_new length' shift frequency coeff window remove_dc' =
     \<lparr>frame_length = length', frame_shift = shift, sample_rate = frequency,
      window_type = window, preemph_coeff = coeff, remove_dc = remove_dc'\<rparr>"

definition FrameOpts_default :: FrameOpts where
  "FrameOpts_default = FrameOpts_new 400 160 16000 (Finite (97 / 100)) kHamm True"

definition FrameOpts_Check :: "FrameOpts \<Rightarrow> error + unit" where
  "FrameOpts_Check opts =
     (case ASSERT (sample_rate opts \<noteq> 0 \<and> frame_shift opts \<le>s frame_length opts) of
        Inl e \<Rightarrow> Inl e
      | Inr _ \<Rightarrow>
          ASSERT (Float32_le (Finite 0) (preemph_coeff opts) \<and>
                  Float32_less (preemph_coeff opts) (Finite 1)))"

section \<open>FrameSplitter\<close>

text \<open>
  An Isabelle name cannot end in an underscore: the C++ member \<open>frame_opts_\<close> is
  written \<open>frame_opts'\<close>, and so for every member below.
\<close>

record FrameSplitter =
  frame_opts' :: FrameOpts
  window' :: "Float32 list option"
  online_use' :: "Float32 list"
  prev_discard_size' :: Int32

definition FrameSplitter_Reset :: "FrameSplitter \<Rightarrow> FrameSplitter" where
  "FrameSplitter_Reset sp = sp\<lparr>prev_discard_size' := 0\<rparr>"

definition FrameSplitter_new :: "externals \<Rightarrow> FrameOpts \<Rightarrow> error + FrameSplitter" where
  "FrameSplitter_new X opts =
     (case FrameOpts_Check opts of
        Inl e \<Rightarrow> Inl e
      | Inr _ \<Rightarrow>
     (case new_Float32 (frame_length opts * 2) of
        Inl e \<Rightarrow> Inl e
      | Inr online_use \<Rightarrow>
          if window_type opts \<noteq> kNone
          then (case new_Float32 (frame_length opts) of
                  Inl e \<Rightarrow> Inl e
                | Inr _ \<Rightarrow>
                    Inr \<lparr>frame_opts' = opts,
                         window' = Some (ComputeWindow X (frame_length opts)
                                           (window_type opts)),
                         online_use' = online_use,
                         prev_discard_size' = 0\<rparr>)
          else Inr \<lparr>frame_opts' = opts, window' = None, online_use' = online_use,
                    prev_discard_size' = 0\<rparr>))"

text \<open>
  \<open>NumFrames\<close>: the count and the warnings it logs. A frame shift of zero, which
  \<open>Check\<close> lets through, makes the C++ division trap, and so does a frame shift
  of \<open>-1\<close> when the dividend is the least integer.
\<close>

definition FrameSplitter_NumFrames ::
  "FrameSplitter \<Rightarrow> Int32 \<Rightarrow> error + (Int32 \<times> log_entry list)" where
  "FrameSplitter_NumFrames sp num_samps =
     (if frame_shift (frame_opts' sp) = 0 then Inl DivisionByZero
      else if sint (num_samps + prev_discard_size' sp - frame_length (frame_opts' sp))
                = - (2 ^ 31) \<and>
              frame_shift (frame_opts' sp) = - 1
      then Inl DivisionOverflow
      else
        let num_frames =
              Int32_div (num_samps + prev_discard_size' sp - frame_length (frame_opts' sp))
                        (frame_shift (frame_opts' sp)) + 1
        in Inr (num_frames,
                if num_frames = 0
                then [LOG_WARN ''Number of samples is less than frame length, ''
                        (num_samps + prev_discard_size' sp) '' vs ''
                        (frame_length (frame_opts' sp))]
                else []))"

definition FrameSplitter_FrameLength :: "FrameSplitter \<Rightarrow> Int32" where
  "FrameSplitter_FrameLength sp = frame_length (frame_opts' sp)"

definition FrameSplitter_FrameShift :: "FrameSplitter \<Rightarrow> Int32" where
  "FrameSplitter_FrameShift sp = frame_shift (frame_opts' sp)"

definition FrameSplitter_SampleRate :: "FrameSplitter \<Rightarrow> Int32" where
  "FrameSplitter_SampleRate sp = sample_rate (frame_opts' sp)"

definition FrameSplitter_PaddingLength :: "externals \<Rightarrow> FrameSplitter \<Rightarrow> Int32" where
  "FrameSplitter_PaddingLength X sp =
     RoundUpToNearestPowerOfTwo X (frame_length (frame_opts' sp))"

text \<open>
  \<open>Frame\<close> calls \<open>FrameForIndex\<close>, whose body is not in signal.h: it is the
  parameter \<open>FFI\<close>. Its arguments are the splitter, the signal, \<open>num_samps\<close>, the
  frame index, the destination memory \<open>frames\<close> and the offset \<open>stride * t\<close> of the
  frame in it; it returns the splitter and the destination as it leaves them.
  The last argument of the C++ call is \<open>NULL\<close>: no raw energy is asked for.
\<close>

type_synonym FrameForIndex_fn =
  "FrameSplitter \<Rightarrow> Float32 list \<Rightarrow> Int32 \<Rightarrow> Int32 \<Rightarrow> Float32 list \<Rightarrow> Int32 \<Rightarrow>
   error + (FrameSplitter \<times> Float32 list)"

function Frame_loop ::
  "FrameForIndex_fn \<Rightarrow> Float32 list \<Rightarrow> Int32 \<Rightarrow> Int32 \<Rightarrow> Int32 \<Rightarrow> Int32 \<Rightarrow>
   FrameSplitter \<times> Float32 list \<Rightarrow> error + (FrameSplitter \<times> Float32 list)" where
  "Frame_loop FFI signal num_samps stride num_frames t st =
     (if t <s num_frames
      then (case FFI (fst st) signal num_samps t (snd st) (stride * t) of
              Inl e \<Rightarrow> Inl e
            | Inr st' \<Rightarrow> Frame_loop FFI signal num_samps stride num_frames (t + 1) st')
      else Inr st)"
  by pat_completeness auto
termination
proof (relation "measure (\<lambda>(FFI, signal, num_samps, stride, num_frames, t, st).
                            nat (sint num_frames - sint t))")
  show "wf (measure (\<lambda>(FFI, signal, num_samps, stride, num_frames, t, st).
                            nat (sint num_frames - sint t)))"
    by simp
next
  fix FFI :: FrameForIndex_fn and signal :: "Float32 list"
    and num_samps stride num_frames t :: Int32
    and st x2 :: "FrameSplitter \<times> Float32 list"
  assume less: "t <s num_frames"
  have "sint num_frames < 2 ^ 31" using sint_lt [of num_frames] by simp
  moreover have "sint t < sint num_frames" using less by (simp add: word_sless_alt)
  moreover have "- (2 ^ 31) \<le> sint t" using sint_ge [of t] by simp
  ultimately have "sint (t + 1) = sint t + 1"
    by (simp add: sint_word_ariths signed_take_bit_int_eq_self)
  with \<open>sint t < sint num_frames\<close>
  show "((FFI, signal, num_samps, stride, num_frames, t + 1, x2),
         (FFI, signal, num_samps, stride, num_frames, t, st))
        \<in> measure (\<lambda>(FFI, signal, num_samps, stride, num_frames, t, st).
                            nat (sint num_frames - sint t))"
    by simp
qed

declare Frame_loop.simps [simp del]

definition FrameSplitter_Frame ::
  "FrameForIndex_fn \<Rightarrow> FrameSplitter \<Rightarrow> Float32 list \<Rightarrow> Int32 \<Rightarrow> Float32 list \<Rightarrow> Int32 \<Rightarrow>
   error + (Int32 \<times> FrameSplitter \<times> Float32 list \<times> log_entry list)" where
  "FrameSplitter_Frame FFI sp signal num_samps frames stride =
     (case ASSERT (frame_length (frame_opts' sp) \<le>s stride) of
        Inl e \<Rightarrow> Inl e
      | Inr _ \<Rightarrow>
          (case FrameSplitter_NumFrames sp num_samps of
             Inl e \<Rightarrow> Inl e
           | Inr (num_frames, warnings) \<Rightarrow>
               (case Frame_loop FFI signal num_samps stride num_frames 0 (sp, frames) of
                  Inl e \<Rightarrow> Inl e
                | Inr (sp', frames') \<Rightarrow> Inr (num_frames, sp', frames', warnings))))"

section \<open>ConfigureParser\<close>

text \<open>
  \<open>ConfigureParser\<close> is declared in decoder/config.h, which is not part of
  signal.h. \<open>AddOptions(section, key, &value)\<close> may store a parsed value in
  \<open>value\<close>: each field below gives the value the variable holds after the call,
  from the section, the key and the value it held before.
  \<open>StringToWindow\<close>, declared in signal.h, is a parameter of \<open>ParseConfigure\<close>: it
  ends the process on a name it does not know.
\<close>

record ConfigureParser =
  AddOptions_Int32 :: "string \<Rightarrow> string \<Rightarrow> Int32 \<Rightarrow> Int32"
  AddOptions_Float32 :: "string \<Rightarrow> string \<Rightarrow> Float32 \<Rightarrow> Float32"
  AddOptions_Bool :: "string \<Rightarrow> string \<Rightarrow> bool \<Rightarrow> bool"
  AddOptions_string :: "string \<Rightarrow> string \<Rightarrow> string \<Rightarrow> string"

definition FrameOpts_ParseConfigure ::
  "(string \<Rightarrow> error + WindowType) \<Rightarrow> ConfigureParser \<Rightarrow> FrameOpts \<Rightarrow> error + FrameOpts"
  where
  "FrameOpts_ParseConfigure StringToWindow parser opts =
     (let o1 = opts\<lparr>frame_length :=
                  AddOptions_Int32 parser ''FrameOpts'' ''frame_length'' (frame_length opts)\<rparr>;
          o2 = o1\<lparr>frame_shift :=
                  AddOptions_Int32 parser ''FrameOpts'' ''frame_shift'' (frame_shift o1)\<rparr>;
          o3 = o2\<lparr>preemph_coeff :=
                  AddOptions_Float32 parser ''FrameOpts'' ''preemph_coeff'' (preemph_coeff o2)\<rparr>;
          o4 = o3\<lparr>sample_rate :=
                  AddOptions_Int32 parser ''FrameOpts'' ''sample_rate'' (sample_rate o3)\<rparr>;
          o5 = o4\<lparr>remove_dc :=
                  AddOptions_Bool parser ''FrameOpts'' ''remove_dc'' (remove_dc o4)\<rparr>;
          window = AddOptions_string parser ''FrameOpts'' ''window'' ''''
      in case StringToWindow window of
           Inl e \<Rightarrow> Inl e
         | Inr w \<Rightarrow> Inr (o5\<lparr>window_type := w\<rparr>))"

section \<open>SpectrogramOpts and SpectrogramComputer\<close>

record SpectrogramOpts =
  apply_log :: bool
  apply_pow :: bool
  use_log_raw_energy :: bool
  frame_opts :: FrameOpts

definition SpectrogramOpts_of_FrameOpts :: "FrameOpts \<Rightarrow> SpectrogramOpts" where
  "SpectrogramOpts_of_FrameOpts opts =
     \<lparr>apply_log = True, apply_pow = True, use_log_raw_energy = True, frame_opts = opts\<rparr>"

definition SpectrogramOpts_new :: "bool \<Rightarrow> bool \<Rightarrow> bool \<Rightarrow> SpectrogramOpts" where
  "SpectrogramOpts_new power' log' use_energy =
     \<lparr>apply_log = log', apply_pow = power', use_log_raw_energy = use_energy,
      frame_opts = FrameOpts_default\<rparr>"

definition SpectrogramOpts_default :: SpectrogramOpts where
  "SpectrogramOpts_default = SpectrogramOpts_new True True True"

definition SpectrogramOpts_Check :: "SpectrogramOpts \<Rightarrow> error + unit" where
  "SpectrogramOpts_Check opts = FrameOpts_Check (frame_opts opts)"

definition SpectrogramOpts_ParseConfigure ::
  "(string \<Rightarrow> error + WindowType) \<Rightarrow> ConfigureParser \<Rightarrow> SpectrogramOpts \<Rightarrow>
   error + SpectrogramOpts" where
  "SpectrogramOpts_ParseConfigure StringToWindow parser opts =
     (case FrameOpts_ParseConfigure StringToWindow parser (frame_opts opts) of
        Inl e \<Rightarrow> Inl e
      | Inr fo \<Rightarrow>
          (let o1 = opts\<lparr>frame_opts := fo\<rparr>;
               o2 = o1\<lparr>apply_log :=
                      AddOptions_Bool parser ''SpectrogramOpts'' ''apply_log'' (apply_log o1)\<rparr>;
               o3 = o2\<lparr>apply_pow :=
                      AddOptions_Bool parser ''SpectrogramOpts'' ''apply_pow'' (apply_pow o2)\<rparr>
           in Inr (o3\<lparr>use_log_raw_energy :=
                      AddOptions_Bool parser ''SpectrogramOpts'' ''use_log_raw_energy''
                        (use_log_raw_energy o3)\<rparr>)))"

text \<open>\<open>FFTComputer\<close> is declared in decoder/fft-computer.h: the model keeps its size.\<close>

datatype FFTComputer = FFTComputer_new Int32

record SpectrogramComputer =
  apply_pow' :: bool
  apply_log' :: bool
  use_log_raw_energy' :: bool
  padding_length' :: Int32
  splitter :: FrameSplitter
  fft_computer :: FFTComputer
  realfft_cache' :: "Float32 list"

definition SpectrogramComputer_new ::
  "externals \<Rightarrow> SpectrogramOpts \<Rightarrow> error + SpectrogramComputer" where
  "SpectrogramComputer_new X spectrogram_opts =
     (case FrameSplitter_new X (frame_opts spectrogram_opts) of
        Inl e \<Rightarrow> Inl e
      | Inr sp \<Rightarrow>
          (let padding_length = FrameSplitter_PaddingLength X sp
           in case new_Float32 padding_length of
                Inl e \<Rightarrow> Inl e
              | Inr realfft_cache \<Rightarrow>
                  Inr \<lparr>apply_pow' = apply_pow spectrogram_opts,
                       apply_log' = apply_log spectrogram_opts,
                       use_log_raw_energy' = use_log_raw_energy spectrogram_opts,
                       padding_length' = padding_length,
                       splitter = sp,
                       fft_computer = FFTComputer_new padding_length,
                       realfft_cache' = realfft_cache\<rparr>))"

definition SpectrogramComputer_PaddingLength :: "SpectrogramComputer \<Rightarrow> Int32" where
  "SpectrogramComputer_PaddingLength c = padding_length' c"

definition SpectrogramComputer_FeatureDim :: "SpectrogramComputer \<Rightarrow> Int32" where
  "SpectrogramComputer_FeatureDim c = Int32_div (padding_length' c) 2 + 1"

definition SpectrogramComputer_NumFrames ::
  "SpectrogramComputer \<Rightarrow> Int32 \<Rightarrow> error + (Int32 \<times> log_entry list)" where
  "SpectrogramComputer_NumFrames c num_samps = FrameSplitter_NumFrames (splitter c) num_samps"

definition SpectrogramComputer_Reset :: "SpectrogramComputer \<Rightarrow> SpectrogramComputer" where
  "SpectrogramComputer_Reset c = c\<lparr>splitter := FrameSplitter_Reset (splitter c)\<rparr>"

section \<open>FbankOpts and FbankComputer\<close>

record FbankOpts =
  num_mel_bins :: Int32
  lower_bound :: Int32
  upper_bound :: Int32
  apply_log :: bool
  spectrogram_opts :: SpectrogramOpts

definition FbankOpts_of_SpectrogramOpts :: "SpectrogramOpts \<Rightarrow> FbankOpts" where
  "FbankOpts_of_SpectrogramOpts opts =
     \<lparr>num_mel_bins = 23, lower_bound = 20, upper_bound = 0, FbankOpts.apply_log = True,
      spectrogram_opts = opts\<rparr>"

text \<open>
  The second constructor default-constructs \<open>spectrogram_opts\<close> and then switches
  two of its flags off. Its parameter \<open>power\<close> is not used by the C++ body.
\<close>

definition FbankOpts_new :: "Int32 \<Rightarrow> Int32 \<Rightarrow> Int32 \<Rightarrow> bool \<Rightarrow> bool \<Rightarrow> FbankOpts" where
  "FbankOpts_new num_bins low high power' log' =
     \<lparr>num_mel_bins = num_bins, lower_bound = low, upper_bound = high,
      FbankOpts.apply_log = log',
      spectrogram_opts =
        SpectrogramOpts_default\<lparr>use_log_raw_energy := False,
                                 SpectrogramOpts.apply_log := False\<rparr>\<rparr>"

definition FbankOpts_default :: FbankOpts where
  "FbankOpts_default = FbankOpts_new 23 20 0 True True"

definition FbankOpts_Check :: "FbankOpts \<Rightarrow> error + unit" where
  "FbankOpts_Check opts =
     (case SpectrogramOpts_Check (spectrogram_opts opts) of
        Inl e \<Rightarrow> Inl e
      | Inr _ \<Rightarrow>
          (case ASSERT (3 \<le>s num_mel_bins opts) of
             Inl e \<Rightarrow> Inl e
           | Inr _ \<Rightarrow> ASSERT (0 \<le>s lower_bound opts)))"

definition FbankOpts_ParseConfigure ::
  "(string \<Rightarrow> error + WindowType) \<Rightarrow> ConfigureParser \<Rightarrow> FbankOpts \<Rightarrow> error + FbankOpts"
  where
  "FbankOpts_ParseConfigure StringToWindow parser opts =
     (case SpectrogramOpts_ParseConfigure StringToWindow parser (spectrogram_opts opts) of
        Inl e \<Rightarrow> Inl e
      | Inr so \<Rightarrow>
          (let o1 = opts\<lparr>spectrogram_opts :=
                      so\<lparr>use_log_raw_energy := False,
                         SpectrogramOpts.apply_log := False\<rparr>\<rparr>;
               o2 = o1\<lparr>num_mel_bins :=
                      AddOptions_Int32 parser ''FbankOpts'' ''num_mel_bins'' (num_mel_bins o1)\<rparr>;
               o3 = o2\<lparr>lower_bound :=
                      AddOptions_Int32 parser ''FbankOpts'' ''lower_bound'' (lower_bound o2)\<rparr>;
               o4 = o3\<lparr>upper_bound :=
                      AddOptions_Int32 parser ''FbankOpts'' ''upper_bound'' (upper_bound o3)\<rparr>
           in Inr (o4\<lparr>FbankOpts.apply_log :=
                      AddOptions_Bool parser ''FbankOpts'' ''apply_log''
                        (FbankOpts.apply_log o4)\<rparr>)))"

record FbankComputer =
  spectrum_cache' :: "Float32 list"
  num_bins' :: Int32
  lower_bound' :: Int32
  upper_bound' :: Int32
  apply_log' :: bool
  mel_coeff' :: "Float32 list list"
  spectrogram_computer' :: SpectrogramComputer

text \<open>
  The member \<open>spectrogram_computer_\<close> is built by the initialiser list, before the
  body of the constructor runs. \<open>sample_rate >> 1\<close> is the arithmetic shift.
  \<open>upper_bound > 0.0\<close> compares the integer, converted without loss, with zero.
\<close>

definition FbankComputer_new :: "externals \<Rightarrow> FbankOpts \<Rightarrow> error + FbankComputer" where
  "FbankComputer_new X fbank_opts =
     (case SpectrogramComputer_new X (spectrogram_opts fbank_opts) of
        Inl e \<Rightarrow> Inl e
      | Inr sc \<Rightarrow>
     (case FbankOpts_Check fbank_opts of
        Inl e \<Rightarrow> Inl e
      | Inr _ \<Rightarrow>
     (let spectrogram_opts' = spectrogram_opts fbank_opts
      in case ASSERT (\<not> SpectrogramOpts.apply_log spectrogram_opts' \<and>
                      \<not> use_log_raw_energy spectrogram_opts') of
        Inl e \<Rightarrow> Inl e
      | Inr _ \<Rightarrow>
     (let center_freq = signed_drop_bit 1 (sample_rate (frame_opts spectrogram_opts'))
      in case new_Float32 (SpectrogramComputer_FeatureDim sc) of
        Inl e \<Rightarrow> Inl e
      | Inr spectrum_cache \<Rightarrow>
     (let upper = (if 0 <s upper_bound fbank_opts
                   then upper_bound fbank_opts
                   else center_freq + upper_bound fbank_opts)
      in Inr \<lparr>spectrum_cache' = spectrum_cache,
               num_bins' = num_mel_bins fbank_opts,
               lower_bound' = lower_bound fbank_opts,
               upper_bound' = upper,
               FbankComputer.apply_log' = FbankOpts.apply_log fbank_opts,
               mel_coeff' = ComputeMelFilters X (SpectrogramComputer_FeatureDim sc)
                              (num_mel_bins fbank_opts) center_freq
                              (lower_bound fbank_opts) upper,
               spectrogram_computer' = sc\<rparr>)))))"

definition FbankComputer_Reset :: "FbankComputer \<Rightarrow> FbankComputer" where
  "FbankComputer_Reset c =
     c\<lparr>spectrogram_computer' := SpectrogramComputer_Reset (spectrogram_computer' c)\<rparr>"

definition FbankComputer_FeatureDim :: "FbankComputer \<Rightarrow> Int32" where
  "FbankComputer_FeatureDim c = num_bins' c"

definition FbankComputer_NumFrames ::
  "FbankComputer \<Rightarrow> Int32 \<Rightarrow> error + (Int32 \<times> log_entry list)" where
  "FbankComputer_NumFrames c num_samps =
     SpectrogramComputer_NumFrames (spectrogram_computer' c) num_samps"

section \<open>MfccOpts and MfccComputer\<close>

record MfccOpts =
  fbank_opts :: FbankOpts
  num_ceps :: Int32
  use_energy :: bool
  cepstral_lifter :: Float32

definition MfccOpts_new :: "Int32 \<Rightarrow> bool \<Rightarrow> Float32 \<Rightarrow> MfccOpts" where
  "MfccOpts_new num_ceps'' energy cepstral =
     \<lparr>fbank_opts =
        FbankOpts_default\<lparr>FbankOpts.apply_log := True,
                           spectrogram_opts :=
                             (spectrogram_opts FbankOpts_default)\<lparr>apply_pow := True\<rparr>\<rparr>,
      num_ceps = num_ceps'', use_energy = energy, cepstral_lifter = cepstral\<rparr>"

definition MfccOpts_default :: MfccOpts where
  "MfccOpts_default = MfccOpts_new 13 True (Finite 22)"

definition MfccOpts_of_FbankOpts :: "FbankOpts \<Rightarrow> MfccOpts" where
  "MfccOpts_of_FbankOpts opts =
     \<lparr>fbank_opts = opts, num_ceps = 13, use_energy = True, cepstral_lifter = Finite 23\<rparr>"

definition MfccOpts_Check :: "MfccOpts \<Rightarrow> error + unit" where
  "MfccOpts_Check opts =
     (case FbankOpts_Check (fbank_opts opts) of
        Inl e \<Rightarrow> Inl e
      | Inr _ \<Rightarrow> ASSERT (1 \<le>s num_ceps opts))"

definition MfccOpts_ParseConfigure ::
  "(string \<Rightarrow> error + WindowType) \<Rightarrow> ConfigureParser \<Rightarrow> MfccOpts \<Rightarrow> error + MfccOpts"
  where
  "MfccOpts_ParseConfigure StringToWindow parser opts =
     (case FbankOpts_ParseConfigure StringToWindow parser (fbank_opts opts) of
        Inl e \<Rightarrow> Inl e
      | Inr fo \<Rightarrow>
          (let fo1 = fo\<lparr>FbankOpts.apply_log := True\<rparr>;
               fo2 = fo1\<lparr>spectrogram_opts := (spectrogram_opts fo1)\<lparr>apply_pow := True\<rparr>\<rparr>;
               o1 = opts\<lparr>fbank_opts := fo2\<rparr>;
               o2 = o1\<lparr>num_ceps :=
                      AddOptions_Int32 parser ''MfccOpts'' ''num_ceps'' (num_ceps o1)\<rparr>;
               o3 = o2\<lparr>use_energy :=
                      AddOptions_Bool parser ''MfccOpts'' ''use_energy'' (use_energy o2)\<rparr>
           in Inr (o3\<lparr>cepstral_lifter :=
                      AddOptions_Float32 parser ''MfccOpts'' ''cepstral_lifter''
                        (cepstral_lifter o3)\<rparr>)))"

text \<open>
  The liftering coefficient \<open>0.5 * cepstral_lifter_ * sin(PI * i / cepstral_lifter_) + 1.0\<close>
  and the loop of the constructor that fills \<open>lifter_coeffs_\<close>, for \<open>i\<close> from 0.
\<close>

definition lifter_coeff :: "Float32 \<Rightarrow> Int32 \<Rightarrow> Float32" where
  "lifter_coeff cepstral_lifter'' i =
     Float32_add
       (Float32_mult (Float32_mult (Finite (1 / 2)) cepstral_lifter'')
          (Float32_sin (Float32_div (Float32_mult PI (Float32_of_Int32 i)) cepstral_lifter'')))
       (Finite 1)"

function lifter_loop :: "Int32 \<Rightarrow> Float32 \<Rightarrow> Int32 \<Rightarrow> Float32 list \<Rightarrow> Float32 list" where
  "lifter_loop num_ceps'' cepstral_lifter'' i lifter_coeffs =
     (if i <s num_ceps''
      then lifter_loop num_ceps'' cepstral_lifter'' (i + 1)
             (lifter_coeffs[nat (sint i) := lifter_coeff cepstral_lifter'' i])
      else lifter_coeffs)"
  by pat_completeness auto
termination
proof (relation "measure (\<lambda>(n, l, i, c). nat (sint n - sint i))")
  show "wf (measure (\<lambda>(n :: Int32, l :: Float32, i :: Int32, c :: Float32 list).
              nat (sint n - sint i)))"
    by simp
next
  fix n i :: Int32 and l :: Float32 and c :: "Float32 list"
  assume less: "i <s n"
  have "sint n < 2 ^ 31" using sint_lt [of n] by simp
  moreover have "sint i < sint n" using less by (simp add: word_sless_alt)
  moreover have "- (2 ^ 31) \<le> sint i" using sint_ge [of i] by simp
  ultimately have "sint (i + 1) = sint i + 1"
    by (simp add: sint_word_ariths signed_take_bit_int_eq_self)
  with \<open>sint i < sint n\<close>
  show "((n, l, i + 1, c[nat (sint i) := lifter_coeff l i]), (n, l, i, c))
        \<in> measure (\<lambda>(n, l, i, c). nat (sint n - sint i))"
    by simp
qed

declare lifter_loop.simps [simp del]

record MfccComputer =
  num_ceps' :: Int32
  use_energy' :: bool
  cepstral_lifter' :: Float32
  lifter_coeffs' :: "Float32 list"
  dct_matrix' :: "Float32 list"
  mel_energy_cache' :: "Float32 list"
  fbank_computer :: FbankComputer

text \<open>
  The member \<open>fbank_computer\<close> is built by the initialiser list, before the body:
  the constructor of \<open>FbankComputer\<close> runs first, then \<open>mfcc_opts.Check()\<close>, the
  liftering loop and the assertion on the two flags.
\<close>

definition MfccComputer_new :: "externals \<Rightarrow> MfccOpts \<Rightarrow> error + MfccComputer" where
  "MfccComputer_new X mfcc_opts =
     (case FbankComputer_new X (fbank_opts mfcc_opts) of
        Inl e \<Rightarrow> Inl e
      | Inr fc \<Rightarrow>
     (case MfccOpts_Check mfcc_opts of
        Inl e \<Rightarrow> Inl e
      | Inr _ \<Rightarrow>
     (case new_Float32 (num_ceps mfcc_opts) of
        Inl e \<Rightarrow> Inl e
      | Inr cells \<Rightarrow>
     (let lifter_coeffs =
            lifter_loop (num_ceps mfcc_opts) (cepstral_lifter mfcc_opts) 0 cells
      in case ASSERT (apply_pow (spectrogram_opts (fbank_opts mfcc_opts)) \<and>
                      FbankOpts.apply_log (fbank_opts mfcc_opts)) of
        Inl e \<Rightarrow> Inl e
      | Inr _ \<Rightarrow>
     (let num_mel_bins' = FbankComputer_FeatureDim fc
      in case new_Float32 (num_ceps mfcc_opts * num_mel_bins') of
        Inl e \<Rightarrow> Inl e
      | Inr _ \<Rightarrow>
     (case new_Float32 num_mel_bins' of
        Inl e \<Rightarrow> Inl e
      | Inr mel_energy_cache \<Rightarrow>
          Inr \<lparr>num_ceps' = num_ceps mfcc_opts,
               use_energy' = use_energy mfcc_opts,
               cepstral_lifter' = cepstral_lifter mfcc_opts,
               lifter_coeffs' = lifter_coeffs,
               dct_matrix' = ComputeDctMatrix X (num_ceps mfcc_opts) num_mel_bins',
               mel_energy_cache' = mel_energy_cache,
               fbank_computer = fc\<rparr>))))))"

definition MfccComputer_Reset :: "MfccComputer \<Rightarrow> MfccComputer" where
  "MfccComputer_Reset c = c\<lparr>fbank_computer := FbankComputer_Reset (fbank_computer c)\<rparr>"

definition MfccComputer_FeatureDim :: "MfccComputer \<Rightarrow> Int32" where
  "MfccComputer_FeatureDim c = num_ceps' c"

definition MfccComputer_NumFrames ::
  "MfccComputer \<Rightarrow> Int32 \<Rightarrow> error + (Int32 \<times> log_entry list)" where
  "MfccComputer_NumFrames c num_samps = FbankComputer_NumFrames (fbank_computer c) num_samps"

section \<open>The life of a computer\<close>

text \<open>
  Modelled from the spec: the bodies of the three \<open>ComputeFrame\<close> methods are not
  in signal.h. By section 3 of the spec the derived caches "are computed once and
  never reallocated during frame processing", a computer "owns private scratch
  buffers that are reused across frames", and the online framing state "is mutated
  on every incremental call". So a call of \<open>ComputeFrame\<close> changes the frame
  splitter and the scratch buffer of each tier and nothing else; what it leaves in
  them is a parameter. The feature values it writes for the caller are not modelled.
\<close>

record frame_effects =
  splitter_after :: "FrameSplitter \<Rightarrow> Float32 list \<Rightarrow> Int32 \<Rightarrow> Int32 \<Rightarrow> error + FrameSplitter"
  realfft_cache_after :: "Float32 list \<Rightarrow> Float32 list \<Rightarrow> Int32 \<Rightarrow> Int32 \<Rightarrow> Float32 list"
  spectrum_cache_after :: "Float32 list \<Rightarrow> Float32 list \<Rightarrow> Int32 \<Rightarrow> Int32 \<Rightarrow> Float32 list"
  mel_energy_cache_after :: "Float32 list \<Rightarrow> Float32 list \<Rightarrow> Int32 \<Rightarrow> Int32 \<Rightarrow> Float32 list"

definition SpectrogramComputer_ComputeFrame ::
  "frame_effects \<Rightarrow> SpectrogramComputer \<Rightarrow> Float32 list \<Rightarrow> Int32 \<Rightarrow> Int32 \<Rightarrow>
   error + SpectrogramComputer" where
  "SpectrogramComputer_ComputeFrame E c signal num_samps t =
     (case splitter_after E (splitter c) signal num_samps t of
        Inl e \<Rightarrow> Inl e
      | Inr sp \<Rightarrow>
          Inr (c\<lparr>splitter := sp,
                 realfft_cache' := realfft_cache_after E (realfft_cache' c) signal num_samps t\<rparr>))"

definition FbankComputer_ComputeFrame ::
  "frame_effects \<Rightarrow> FbankComputer \<Rightarrow> Float32 list \<Rightarrow> Int32 \<Rightarrow> Int32 \<Rightarrow>
   error + FbankComputer" where
  "FbankComputer_ComputeFrame E c signal num_samps t =
     (case SpectrogramComputer_ComputeFrame E (spectrogram_computer' c) signal num_samps t of
        Inl e \<Rightarrow> Inl e
      | Inr sc \<Rightarrow>
          Inr (c\<lparr>spectrogram_computer' := sc,
                 spectrum_cache' := spectrum_cache_after E (spectrum_cache' c) signal num_samps t\<rparr>))"

definition MfccComputer_ComputeFrame ::
  "frame_effects \<Rightarrow> MfccComputer \<Rightarrow> Float32 list \<Rightarrow> Int32 \<Rightarrow> Int32 \<Rightarrow>
   error + MfccComputer" where
  "MfccComputer_ComputeFrame E c signal num_samps t =
     (case FbankComputer_ComputeFrame E (fbank_computer c) signal num_samps t of
        Inl e \<Rightarrow> Inl e
      | Inr fc \<Rightarrow>
          Inr (c\<lparr>fbank_computer := fc,
                 mel_energy_cache' :=
                   mel_energy_cache_after E (mel_energy_cache' c) signal num_samps t\<rparr>))"

text \<open>
  The calls of the interface \<open>Computer\<close>, and the state of a computer after a
  sequence of them. A call that ends the process ends the sequence.
\<close>

datatype call =
  Call_ComputeFrame "Float32 list" Int32 Int32
| Call_FeatureDim
| Call_NumFrames Int32
| Call_Reset

fun SpectrogramComputer_call ::
  "frame_effects \<Rightarrow> call \<Rightarrow> SpectrogramComputer \<Rightarrow> error + SpectrogramComputer" where
  "SpectrogramComputer_call E (Call_ComputeFrame signal num_samps t) c =
     SpectrogramComputer_ComputeFrame E c signal num_samps t"
| "SpectrogramComputer_call E Call_FeatureDim c = Inr c"
| "SpectrogramComputer_call E (Call_NumFrames num_samps) c =
     (case SpectrogramComputer_NumFrames c num_samps of Inl e \<Rightarrow> Inl e | Inr _ \<Rightarrow> Inr c)"
| "SpectrogramComputer_call E Call_Reset c = Inr (SpectrogramComputer_Reset c)"

fun FbankComputer_call ::
  "frame_effects \<Rightarrow> call \<Rightarrow> FbankComputer \<Rightarrow> error + FbankComputer" where
  "FbankComputer_call E (Call_ComputeFrame signal num_samps t) c =
     FbankComputer_ComputeFrame E c signal num_samps t"
| "FbankComputer_call E Call_FeatureDim c = Inr c"
| "FbankComputer_call E (Call_NumFrames num_samps) c =
     (case FbankComputer_NumFrames c num_samps of Inl e \<Rightarrow> Inl e | Inr _ \<Rightarrow> Inr c)"
| "FbankComputer_call E Call_Reset c = Inr (FbankComputer_Reset c)"

fun MfccComputer_call ::
  "frame_effects \<Rightarrow> call \<Rightarrow> MfccComputer \<Rightarrow> error + MfccComputer" where
  "MfccComputer_call E (Call_ComputeFrame signal num_samps t) c =
     MfccComputer_ComputeFrame E c signal num_samps t"
| "MfccComputer_call E Call_FeatureDim c = Inr c"
| "MfccComputer_call E (Call_NumFrames num_samps) c =
     (case MfccComputer_NumFrames c num_samps of Inl e \<Rightarrow> Inl e | Inr _ \<Rightarrow> Inr c)"
| "MfccComputer_call E Call_Reset c = Inr (MfccComputer_Reset c)"

fun run :: "(call \<Rightarrow> 's \<Rightarrow> error + 's) \<Rightarrow> call list \<Rightarrow> 's \<Rightarrow> error + 's" where
  "run step [] c = Inr c"
| "run step (x # xs) c = (case step x c of Inl e \<Rightarrow> Inl e | Inr c' \<Rightarrow> run step xs c')"

section \<open>FrameForIndex\<close>

text \<open>
  Modelled from the spec: the body of \<open>FrameSplitter::FrameForIndex\<close> is not in
  signal.h. By section 4.2 of the spec it "copies \<open>frame_length\<close> samples for the
  given frame index into \<open>dest\<close>, correctly stitching together previously
  carried-over tail samples with newly arrived samples so that incremental calls
  are equivalent to one batch call over the concatenated stream"; by section 3 the
  online framing state is "the carried-over tail of unconsumed samples from the
  previous incremental call"; by the comment in signal.h the first
  \<open>prev_discard_size_\<close> cells of \<open>online_use_\<close> hold those samples.

  The stream of a call is the carried tail followed by the \<open>num_samps\<close> new samples;
  frame \<open>index\<close> is the \<open>frame_length\<close> samples of the stream from
  \<open>index * frame_shift\<close> on. The call for the last frame that \<open>NumFrames\<close> counts
  stores the samples that no counted frame has passed, those from
  \<open>num_frames * frame_shift\<close> on, as the new tail. A frame that the stream or a
  buffer cannot hold is \<open>OutOfRange\<close>.
\<close>

definition stream_of :: "FrameSplitter \<Rightarrow> Float32 list \<Rightarrow> Int32 \<Rightarrow> Float32 list" where
  "stream_of sp signal num_samps =
     take (nat (sint (prev_discard_size' sp))) (online_use' sp) @
     take (nat (sint num_samps)) signal"

definition write_at :: "Float32 list \<Rightarrow> nat \<Rightarrow> Float32 list \<Rightarrow> Float32 list" where
  "write_at buf off xs = take off buf @ xs @ drop (off + length xs) buf"

definition FrameForIndex_spec :: FrameForIndex_fn where
  "FrameForIndex_spec sp signal num_samps index frame off =
     (case FrameSplitter_NumFrames sp num_samps of
        Inl e \<Rightarrow> Inl e
      | Inr (num_frames, warnings) \<Rightarrow>
          (let frame_length' = nat (sint (frame_length (frame_opts' sp)));
               frame_shift' = nat (sint (frame_shift (frame_opts' sp)));
               stream = stream_of sp signal num_samps;
               start = nat (sint index) * frame_shift';
               tail = drop (nat (sint num_frames) * frame_shift') stream
           in if index <s 0 \<or> off <s 0
                 \<or> length (online_use' sp) < nat (sint (prev_discard_size' sp))
                 \<or> length signal < nat (sint num_samps)
                 \<or> length stream < start + frame_length'
                 \<or> length frame < nat (sint off) + frame_length'
              then Inl OutOfRange
              else if index + 1 = num_frames
              then (if length (online_use' sp) < length tail then Inl OutOfRange
                    else Inr (sp\<lparr>online_use' := write_at (online_use' sp) 0 tail,
                                  prev_discard_size' := word_of_nat (length tail)\<rparr>,
                              write_at frame (nat (sint off))
                                (take frame_length' (drop start stream))))
              else Inr (sp, write_at frame (nat (sint off))
                              (take frame_length' (drop start stream)))))"

text \<open>
  Frame \<open>t\<close> of a buffer that holds frames of \<open>len\<close> samples every \<open>stride'\<close>
  samples: the destination of \<open>Frame\<close> (\<open>frames + stride * t\<close>), and the stream of a
  call, where the stride is the frame shift.
\<close>

definition frame_at :: "Float32 list \<Rightarrow> nat \<Rightarrow> nat \<Rightarrow> nat \<Rightarrow> Float32 list" where
  "frame_at buf stride' len t = take len (drop (t * stride') buf)"

section \<open>An instance of the helper routines\<close>

text \<open>
  Modelled from the spec: \<open>RoundUpToNearestPowerOfTwo\<close> is declared in
  decoder/common.h. By section 4.2 of the spec, \<open>PaddingLength()\<close> is the "smallest
  power of two \<ge> \<open>frame_length\<close>".
\<close>

function RoundUp_from :: "nat \<Rightarrow> nat \<Rightarrow> nat" where
  "RoundUp_from p n = (if n \<le> p \<or> p = 0 then p else RoundUp_from (2 * p) n)"
  by pat_completeness auto
termination
  by (relation "measure (\<lambda>(p, n). n - p)") auto

declare RoundUp_from.simps [simp del]

definition RoundUpToNearestPowerOfTwo_spec :: "Int32 \<Rightarrow> Int32" where
  "RoundUpToNearestPowerOfTwo_spec n = word_of_nat (RoundUp_from 1 (nat (sint n)))"

text \<open>
  The instance below runs the constructors on concrete options: the power of two as
  above, and every other routine leaves its output buffer as it was allocated. The
  theorems about the constructors hold for every instance.
\<close>

definition externals_example :: externals where
  "externals_example =
     \<lparr>RoundUpToNearestPowerOfTwo = RoundUpToNearestPowerOfTwo_spec,
      ComputeWindow = (\<lambda>window_size window_type. Float32_array window_size),
      ComputeMelFilters = (\<lambda>num_fft_bins num_mel_bins sample_rate lower upper.
                             replicate (nat (sint num_mel_bins)) (Float32_array num_fft_bins)),
      ComputeDctMatrix = (\<lambda>num_rows num_cols. Float32_array (num_rows * num_cols))\<rparr>"

definition frame_effects_example :: frame_effects where
  "frame_effects_example =
     \<lparr>splitter_after = (\<lambda>sp signal num_samps t.
        case FrameForIndex_spec sp signal num_samps t
               (Float32_array (frame_length (frame_opts' sp))) 0 of
          Inl e \<Rightarrow> Inl e
        | Inr (sp', frame) \<Rightarrow> Inr sp'),
      realfft_cache_after = (\<lambda>cache signal num_samps t. cache),
      spectrum_cache_after = (\<lambda>cache signal num_samps t. cache),
      mel_energy_cache_after = (\<lambda>cache signal num_samps t. cache)\<rparr>"

section \<open>Properties\<close>

subsection \<open>Evaluation of the primitives\<close>

lemma Int32_div_numeral:
  "Int32_div a b = word_of_int (sgn (sint a) * sgn (sint b) * (\<bar>sint a\<bar> div \<bar>sint b\<bar>))"
  by (simp add: Int32_div_def signed_divide_int_def)

lemma default_checks:
  "FrameOpts_Check FrameOpts_default = Inr ()"
  "SpectrogramOpts_Check SpectrogramOpts_default = Inr ()"
  "FbankOpts_Check FbankOpts_default = Inr ()"
  "MfccOpts_Check MfccOpts_default = Inr ()"
  by (simp_all add: MfccOpts_Check_def MfccOpts_default_def MfccOpts_new_def
      FbankOpts_Check_def FbankOpts_default_def FbankOpts_new_def
      SpectrogramOpts_Check_def SpectrogramOpts_default_def SpectrogramOpts_new_def
      FrameOpts_Check_def FrameOpts_default_def FrameOpts_new_def ASSERT_def word_sle_eq)

lemma new_Float32_Inr: "new_Float32 n = Inr cells \<longleftrightarrow> \<not> n <s 0 \<and> cells = Float32_array n"
  by (auto simp: new_Float32_def)

lemma new_Float32_Inl: "new_Float32 n = Inl e \<longleftrightarrow> n <s 0 \<and> e = BadArrayNewLength"
  by (auto simp: new_Float32_def)

lemma RoundUp_400: "RoundUpToNearestPowerOfTwo_spec 400 = 512"
  by (simp add: RoundUpToNearestPowerOfTwo_spec_def RoundUp_from.simps)

text \<open>The splitter that the constructor builds from the default frame options.\<close>

lemma default_splitter:
  "FrameSplitter_new externals_example FrameOpts_default =
     Inr \<lparr>frame_opts' = FrameOpts_default, window' = Some (Float32_array 400),
          online_use' = Float32_array 800, prev_discard_size' = 0\<rparr>"
  using default_checks(1)
  by (simp add: FrameSplitter_new_def externals_example_def new_Float32_def word_sless_alt)
    (simp add: FrameOpts_default_def FrameOpts_new_def)

text \<open>
  The spectrogram computer that the constructor builds from spectrogram options
  holding the default frame options: the padding length is 512.
\<close>

lemma spectrogram_built:
  "frame_opts so = FrameOpts_default \<Longrightarrow>
   SpectrogramComputer_new externals_example so =
     Inr \<lparr>apply_pow' = apply_pow so,
          SpectrogramComputer.apply_log' = SpectrogramOpts.apply_log so,
          use_log_raw_energy' = use_log_raw_energy so,
          padding_length' = 512,
          splitter = \<lparr>frame_opts' = FrameOpts_default, window' = Some (Float32_array 400),
                      online_use' = Float32_array 800, prev_discard_size' = 0\<rparr>,
          fft_computer = FFTComputer_new 512, realfft_cache' = Float32_array 512\<rparr>"
  using default_splitter RoundUp_400
  by (simp add: SpectrogramComputer_new_def FrameSplitter_PaddingLength_def Let_def)
    (simp add: externals_example_def FrameOpts_default_def FrameOpts_new_def
      new_Float32_def word_sless_alt)

subsection \<open>The frame count\<close>

text \<open>
  C3. The claim reads the count as
  \<open>floor ((num_samps + carried_tail_size - frame_length) / frame_shift) + 1\<close>, reported
  with a warning whenever it is not positive. For the splitter built from the
  default frame options (length 400, shift 160), with no carried tail, and 300
  samples the floor formula gives 0. The C++ division truncates towards zero, so
  \<open>NumFrames\<close> returns 1, a frame that the 300 samples cannot fill, and logs nothing.
  On no samples at all it returns \<open>-1\<close>, again without a warning: only the value 0
  is logged.
\<close>

theorem NumFrames_short_signal:
  "FrameSplitter_new externals_example FrameOpts_default =
     Inr \<lparr>frame_opts' = FrameOpts_default, window' = Some (Float32_array 400),
          online_use' = Float32_array 800, prev_discard_size' = 0\<rparr>
   \<and> FrameSplitter_NumFrames
     \<lparr>frame_opts' = FrameOpts_default, window' = Some (Float32_array 400),
      online_use' = Float32_array 800, prev_discard_size' = 0\<rparr> 300 = Inr (1, [])
   \<and> (300 + 0 - 400) div 160 + 1 = (0 :: int)
   \<and> FrameSplitter_NumFrames
     \<lparr>frame_opts' = FrameOpts_default, window' = Some (Float32_array 400),
      online_use' = Float32_array 800, prev_discard_size' = 0\<rparr> 0 = Inr (- 1, [])"
  using default_splitter
  by (simp add: FrameSplitter_NumFrames_def FrameOpts_default_def FrameOpts_new_def
      Int32_div_numeral)

text \<open>
  The two divisions that trap: a frame shift of zero, and a frame shift of \<open>-1\<close>
  under the least integer.
\<close>

lemma NumFrames_division_traps:
  "FrameSplitter_NumFrames
     \<lparr>frame_opts' = FrameOpts_new 400 0 16000 c w r, window' = W, online_use' = u,
      prev_discard_size' = p\<rparr> n = Inl DivisionByZero"
  "FrameSplitter_NumFrames
     \<lparr>frame_opts' = FrameOpts_new 0 (- 1) 16000 c w r, window' = W, online_use' = u,
      prev_discard_size' = 0\<rparr> (- 2147483648) = Inl DivisionOverflow"
  by (simp_all add: FrameSplitter_NumFrames_def FrameOpts_new_def)

subsection \<open>Validation\<close>

lemma FrameOpts_Check_only_asserts:
  "FrameOpts_Check opts = Inl e \<Longrightarrow> e = AssertionFailed"
  by (auto simp: FrameOpts_Check_def ASSERT_def split: sum.splits if_splits)

lemma FbankOpts_Check_only_asserts:
  "FbankOpts_Check opts = Inl e \<Longrightarrow> e = AssertionFailed"
  by (auto simp: FbankOpts_Check_def SpectrogramOpts_Check_def ASSERT_def
      split: sum.splits if_splits dest: FrameOpts_Check_only_asserts)

lemma FbankOpts_Check_Inr:
  "FbankOpts_Check fb = Inr () \<Longrightarrow> SpectrogramOpts_Check (spectrogram_opts fb) = Inr ()"
  by (auto simp: FbankOpts_Check_def split: sum.splits)

lemma MfccOpts_Check_Inr:
  "MfccOpts_Check m = Inr () \<Longrightarrow> FbankOpts_Check (fbank_opts m) = Inr ()"
  by (auto simp: MfccOpts_Check_def split: sum.splits)

text \<open>
  C5, as amended. \<open>Check\<close> of a \<open>FrameOpts\<close> succeeds exactly when the sample rate
  is not zero, the frame length is at least the frame shift and the pre-emphasis
  coefficient is a number in \<open>[0, 1)\<close>; otherwise an assertion fails.
  \<open>Check\<close> of a \<open>SpectrogramOpts\<close> is that of its frame options; \<open>Check\<close> of an
  \<open>FbankOpts\<close> asks for at least 3 mel bins and a lower bound that is not negative
  as well; \<open>Check\<close> of an \<open>MfccOpts\<close> asks for at least one cepstral coefficient as
  well. The sign of the sample rate and of the frame shift is not looked at.
\<close>

theorem Check_characterised:
  "FrameOpts_Check fo =
     (if sint (sample_rate fo) \<noteq> 0 \<and> sint (frame_shift fo) \<le> sint (frame_length fo) \<and>
         (\<exists>x. preemph_coeff fo = Finite x \<and> 0 \<le> x \<and> x < 1)
      then Inr () else Inl AssertionFailed)
   \<and> SpectrogramOpts_Check so = FrameOpts_Check (frame_opts so)
   \<and> FbankOpts_Check fb =
     (if FrameOpts_Check (frame_opts (spectrogram_opts fb)) = Inr () \<and>
         3 \<le> sint (num_mel_bins fb) \<and> 0 \<le> sint (lower_bound fb)
      then Inr () else Inl AssertionFailed)
   \<and> MfccOpts_Check m =
     (if FbankOpts_Check (fbank_opts m) = Inr () \<and> 1 \<le> sint (num_ceps m)
      then Inr () else Inl AssertionFailed)"
proof (intro conjI)
  show "FrameOpts_Check fo =
     (if sint (sample_rate fo) \<noteq> 0 \<and> sint (frame_shift fo) \<le> sint (frame_length fo) \<and>
         (\<exists>x. preemph_coeff fo = Finite x \<and> 0 \<le> x \<and> x < 1)
      then Inr () else Inl AssertionFailed)"
    by (cases "preemph_coeff fo")
      (auto simp: FrameOpts_Check_def ASSERT_def word_sle_eq signed_eq_0_iff split: sum.splits)
  show "SpectrogramOpts_Check so = FrameOpts_Check (frame_opts so)"
    by (simp add: SpectrogramOpts_Check_def)
  show "FbankOpts_Check fb =
     (if FrameOpts_Check (frame_opts (spectrogram_opts fb)) = Inr () \<and>
         3 \<le> sint (num_mel_bins fb) \<and> 0 \<le> sint (lower_bound fb)
      then Inr () else Inl AssertionFailed)"
    by (auto simp: FbankOpts_Check_def SpectrogramOpts_Check_def ASSERT_def word_sle_eq
        split: sum.splits dest: FrameOpts_Check_only_asserts)
  show "MfccOpts_Check m =
     (if FbankOpts_Check (fbank_opts m) = Inr () \<and> 1 \<le> sint (num_ceps m)
      then Inr () else Inl AssertionFailed)"
    by (auto simp: MfccOpts_Check_def ASSERT_def word_sle_eq
        split: sum.splits dest: FbankOpts_Check_only_asserts)
qed

text \<open>
  The default options pass; zero cepstral coefficients, two mel bins, a frame
  shorter than the shift and a pre-emphasis coefficient of 1 are rejected.
\<close>

theorem Check_characterised_witness:
  "FrameOpts_Check FrameOpts_default = Inr ()
   \<and> FrameOpts_Check (FrameOpts_new 100 160 16000 (Finite (97 / 100)) kHamm True)
       = Inl AssertionFailed
   \<and> FrameOpts_Check (FrameOpts_new 400 160 16000 (Finite 1) kHamm True) = Inl AssertionFailed
   \<and> FrameOpts_Check (FrameOpts_new 400 160 16000 NaN kHamm True) = Inl AssertionFailed
   \<and> FbankOpts_Check (FbankOpts_new 2 20 0 True True) = Inl AssertionFailed
   \<and> MfccOpts_Check (MfccOpts_new 0 True (Finite 22)) = Inl AssertionFailed"
proof -
  have coeff: "\<exists>x :: real. Finite (97 / 100) = Finite x \<and> 0 \<le> x \<and> x < 1"
    by (rule exI [of _ "97 / 100"]) simp
  have "FrameOpts_Check FrameOpts_default = Inr ()"
    using Check_characterised [of FrameOpts_default] coeff
    by (simp add: FrameOpts_default_def FrameOpts_new_def)
  moreover have "FrameOpts_Check (FrameOpts_new 100 160 16000 (Finite (97 / 100)) kHamm True)
       = Inl AssertionFailed"
    using Check_characterised [of "FrameOpts_new 100 160 16000 (Finite (97 / 100)) kHamm True"]
    by (simp add: FrameOpts_new_def)
  moreover have "FrameOpts_Check (FrameOpts_new 400 160 16000 (Finite 1) kHamm True)
       = Inl AssertionFailed"
    using Check_characterised [of "FrameOpts_new 400 160 16000 (Finite 1) kHamm True"]
    by (simp add: FrameOpts_new_def)
  moreover have "FrameOpts_Check (FrameOpts_new 400 160 16000 NaN kHamm True)
       = Inl AssertionFailed"
    using Check_characterised [of "FrameOpts_new 400 160 16000 NaN kHamm True"]
    by (simp add: FrameOpts_new_def)
  moreover have "FbankOpts_Check (FbankOpts_new 2 20 0 True True) = Inl AssertionFailed"
    using Check_characterised [of _ _ "FbankOpts_new 2 20 0 True True"]
    by (simp add: FbankOpts_new_def)
  moreover have "MfccOpts_Check (MfccOpts_new 0 True (Finite 22)) = Inl AssertionFailed"
    using Check_characterised [of _ _ _ "MfccOpts_new 0 True (Finite 22)"]
    by (simp add: MfccOpts_new_def)
  ultimately show ?thesis by simp
qed

text \<open>
  The claim as stated fails: a negative sample rate, a frame shift of zero and a
  negative frame shift (with a negative frame length) all pass \<open>Check\<close>.
\<close>

theorem Check_counterexample:
  "FrameOpts_Check (FrameOpts_new 400 160 (- 16000) (Finite (97 / 100)) kHamm True) = Inr ()
   \<and> FrameOpts_Check (FrameOpts_new 400 0 16000 (Finite (97 / 100)) kHamm True) = Inr ()
   \<and> FrameOpts_Check (FrameOpts_new (- 1) (- 160) 16000 (Finite (97 / 100)) kHamm True)
       = Inr ()"
  by (simp add: FrameOpts_Check_def FrameOpts_new_def ASSERT_def word_sle_eq)

subsection \<open>Construction after validation\<close>

lemma MfccOpts_Check_only_asserts:
  "MfccOpts_Check opts = Inl e \<Longrightarrow> e = AssertionFailed"
  by (auto simp: MfccOpts_Check_def ASSERT_def split: sum.splits if_splits
      dest: FbankOpts_Check_only_asserts)

lemma MfccOpts_Check_num_ceps: "MfccOpts_Check m = Inr () \<Longrightarrow> \<not> num_ceps m <s 0"
  by (auto simp: MfccOpts_Check_def ASSERT_def word_sle_eq word_sless_alt
      split: sum.splits if_splits)

text \<open>When a constructor ends at an assertion.\<close>

lemma FrameSplitter_new_assert:
  "FrameSplitter_new X fo = Inl AssertionFailed \<longleftrightarrow> FrameOpts_Check fo \<noteq> Inr ()"
  by (auto simp: FrameSplitter_new_def new_Float32_def split: sum.splits if_splits
      dest: FrameOpts_Check_only_asserts)

lemma SpectrogramComputer_new_assert:
  "SpectrogramComputer_new X so = Inl AssertionFailed \<longleftrightarrow> SpectrogramOpts_Check so \<noteq> Inr ()"
  using FrameSplitter_new_assert [of X "frame_opts so"]
  by (auto simp: SpectrogramComputer_new_def SpectrogramOpts_Check_def Let_def new_Float32_def
      split: sum.splits if_splits)

lemma FbankComputer_new_assert:
  "FbankComputer_new X fb = Inl AssertionFailed \<longleftrightarrow>
     SpectrogramOpts_Check (spectrogram_opts fb) \<noteq> Inr () \<or>
     (\<exists>sc. SpectrogramComputer_new X (spectrogram_opts fb) = Inr sc) \<and>
     (FbankOpts_Check fb \<noteq> Inr () \<or> SpectrogramOpts.apply_log (spectrogram_opts fb) \<or>
      use_log_raw_energy (spectrogram_opts fb))"
  using SpectrogramComputer_new_assert [of X "spectrogram_opts fb"]
  by (auto simp: FbankComputer_new_def Let_def ASSERT_def new_Float32_def
      split: sum.splits if_splits dest: FbankOpts_Check_only_asserts)

lemma MfccComputer_new_assert:
  "MfccComputer_new X m = Inl AssertionFailed \<longleftrightarrow>
     FbankComputer_new X (fbank_opts m) = Inl AssertionFailed \<or>
     (\<exists>fc. FbankComputer_new X (fbank_opts m) = Inr fc) \<and>
     (MfccOpts_Check m \<noteq> Inr () \<or>
      \<not> (apply_pow (spectrogram_opts (fbank_opts m)) \<and> FbankOpts.apply_log (fbank_opts m)))"
  using MfccOpts_Check_num_ceps [of m]
  by (auto simp: MfccComputer_new_def Let_def ASSERT_def new_Float32_def
      split: sum.splits if_splits dest: MfccOpts_Check_only_asserts)

text \<open>
  When a constructor returns: the options pass \<open>Check\<close>, the flags are as the
  constructor asserts them, and no buffer has a negative size.
\<close>

lemma FrameSplitter_new_Inr:
  "(\<exists>sp. FrameSplitter_new X fo = Inr sp) \<longleftrightarrow>
     FrameOpts_Check fo = Inr () \<and> \<not> frame_length fo * 2 <s 0 \<and>
     (window_type fo \<noteq> kNone \<longrightarrow> \<not> frame_length fo <s 0)"
  by (auto simp: FrameSplitter_new_def new_Float32_def split: sum.splits if_splits)

lemma SpectrogramComputer_new_Inr:
  "(\<exists>c. SpectrogramComputer_new X so = Inr c) \<longleftrightarrow>
     (\<exists>sp. FrameSplitter_new X (frame_opts so) = Inr sp) \<and>
     \<not> RoundUpToNearestPowerOfTwo X (frame_length (frame_opts so)) <s 0"
  by (auto simp: SpectrogramComputer_new_def FrameSplitter_new_def
      FrameSplitter_PaddingLength_def Let_def new_Float32_def split: sum.splits if_splits)

lemma FbankComputer_new_Inr:
  "(\<exists>c. FbankComputer_new X fb = Inr c) \<longleftrightarrow>
     (\<exists>sc. SpectrogramComputer_new X (spectrogram_opts fb) = Inr sc \<and>
           \<not> SpectrogramComputer_FeatureDim sc <s 0) \<and>
     FbankOpts_Check fb = Inr () \<and> \<not> SpectrogramOpts.apply_log (spectrogram_opts fb) \<and>
     \<not> use_log_raw_energy (spectrogram_opts fb)"
  by (auto simp: FbankComputer_new_def Let_def ASSERT_def new_Float32_def
      split: sum.splits if_splits)

lemma MfccComputer_new_Inr:
  "(\<exists>c. MfccComputer_new X m = Inr c) \<longleftrightarrow>
     (\<exists>fc. FbankComputer_new X (fbank_opts m) = Inr fc) \<and>
     MfccOpts_Check m = Inr () \<and>
     apply_pow (spectrogram_opts (fbank_opts m)) \<and> FbankOpts.apply_log (fbank_opts m) \<and>
     \<not> num_ceps m * num_mel_bins (fbank_opts m) <s 0"
proof -
  have bins: "num_bins' fc = num_mel_bins (fbank_opts m) \<and> \<not> num_mel_bins (fbank_opts m) <s 0"
    if "FbankComputer_new X (fbank_opts m) = Inr fc" for fc
    using that
    by (auto simp: FbankComputer_new_def FbankOpts_Check_def Let_def ASSERT_def
        word_sle_eq word_sless_alt split: sum.splits if_splits)
  show ?thesis
    using bins MfccOpts_Check_num_ceps [of m]
    by (auto simp: MfccComputer_new_def FbankComputer_FeatureDim_def Let_def ASSERT_def
        new_Float32_def split: sum.splits if_splits)
qed

text \<open>
  The computers built from the default frame options, with the helper routines of
  the instance above: buffers of 800, 400, 512, 257, 13, 299 and 23 cells.
\<close>

lemma fbank_built:
  assumes "frame_opts (spectrogram_opts fb) = FrameOpts_default"
    and "FbankOpts_Check fb = Inr ()"
    and "\<not> SpectrogramOpts.apply_log (spectrogram_opts fb)"
    and "\<not> use_log_raw_energy (spectrogram_opts fb)"
  shows "\<exists>c. FbankComputer_new externals_example fb = Inr c"
  using assms spectrogram_built [of "spectrogram_opts fb"]
    FbankComputer_new_Inr [of externals_example fb]
  by (simp add: SpectrogramComputer_FeatureDim_def Int32_div_numeral word_sless_alt)

lemma FbankOpts_new_Check:
  "FbankOpts_Check (FbankOpts_new 23 20 high p l) = Inr ()"
  by (simp add: FbankOpts_Check_def FbankOpts_new_def
      SpectrogramOpts_Check_def SpectrogramOpts_default_def SpectrogramOpts_new_def
      FrameOpts_Check_def FrameOpts_default_def FrameOpts_new_def ASSERT_def word_sle_eq)

lemma FbankOpts_new_built:
  "\<exists>c. FbankComputer_new externals_example (FbankOpts_new 23 20 high p l) = Inr c"
  using fbank_built [of "FbankOpts_new 23 20 high p l"] FbankOpts_new_Check [of high p l]
  by (simp add: FbankOpts_new_def SpectrogramOpts_default_def SpectrogramOpts_new_def)

lemma MfccOpts_new_Check: "MfccOpts_Check (MfccOpts_new 13 e l) = Inr ()"
  by (simp add: MfccOpts_Check_def MfccOpts_new_def FbankOpts_Check_def FbankOpts_default_def
      FbankOpts_new_def SpectrogramOpts_Check_def SpectrogramOpts_default_def
      SpectrogramOpts_new_def FrameOpts_Check_def FrameOpts_default_def FrameOpts_new_def
      ASSERT_def word_sle_eq)

lemma MfccOpts_new_built:
  "\<exists>c. MfccComputer_new externals_example (MfccOpts_new 13 e l) = Inr c"
proof -
  have "FbankOpts_Check (fbank_opts (MfccOpts_new 13 e l)) = Inr ()"
    using MfccOpts_new_Check [of e l] by (rule MfccOpts_Check_Inr)
  then have "\<exists>fc. FbankComputer_new externals_example (fbank_opts (MfccOpts_new 13 e l)) = Inr fc"
    by (intro fbank_built)
      (simp_all add: MfccOpts_new_def FbankOpts_default_def FbankOpts_new_def
        SpectrogramOpts_default_def SpectrogramOpts_new_def)
  then show ?thesis
    using MfccComputer_new_Inr [of externals_example "MfccOpts_new 13 e l"]
      MfccOpts_new_Check [of e l]
    by (simp add: MfccOpts_new_def FbankOpts_default_def FbankOpts_new_def
        SpectrogramOpts_default_def SpectrogramOpts_new_def word_sless_alt)
qed

text \<open>
  C1, as amended. For options that pass \<open>Check\<close>: no assertion of the constructors
  of \<open>FrameSplitter\<close> and \<open>SpectrogramComputer\<close> fails. The constructor of
  \<open>FbankComputer\<close> ends at an assertion exactly when its spectrogram computer has
  been built and one of the flags apply-log and use-log-raw-energy of the embedded
  spectrogram options is on. The constructor of \<open>MfccComputer\<close> ends at an
  assertion exactly when that of its Fbank computer does, or the Fbank computer has
  been built and one of the flags apply-pow of the spectrogram options and
  apply-log of the Fbank options is off. This holds for every behaviour of the
  helper routines; assertions inside their bodies, which are not in signal.h, are
  not part of the statement. An allocation of negative size, which \<open>Check\<close> does
  not exclude, ends a constructor with an exception and not with an assertion.
\<close>

theorem constructors_after_Check:
  "(FrameOpts_Check fo = Inr () \<longrightarrow> FrameSplitter_new X fo \<noteq> Inl AssertionFailed)
   \<and> (SpectrogramOpts_Check so = Inr () \<longrightarrow>
        SpectrogramComputer_new X so \<noteq> Inl AssertionFailed)
   \<and> (FbankOpts_Check fb = Inr () \<longrightarrow>
        (FbankComputer_new X fb = Inl AssertionFailed \<longleftrightarrow>
           (\<exists>sc. SpectrogramComputer_new X (spectrogram_opts fb) = Inr sc) \<and>
           (SpectrogramOpts.apply_log (spectrogram_opts fb) \<or>
            use_log_raw_energy (spectrogram_opts fb))))
   \<and> (MfccOpts_Check m = Inr () \<longrightarrow>
        (MfccComputer_new X m = Inl AssertionFailed \<longleftrightarrow>
           FbankComputer_new X (fbank_opts m) = Inl AssertionFailed \<or>
           (\<exists>fc. FbankComputer_new X (fbank_opts m) = Inr fc) \<and>
           \<not> (apply_pow (spectrogram_opts (fbank_opts m)) \<and>
              FbankOpts.apply_log (fbank_opts m))))"
proof (intro conjI impI)
  assume "FrameOpts_Check fo = Inr ()"
  then show "FrameSplitter_new X fo \<noteq> Inl AssertionFailed"
    by (simp add: FrameSplitter_new_assert)
next
  assume "SpectrogramOpts_Check so = Inr ()"
  then show "SpectrogramComputer_new X so \<noteq> Inl AssertionFailed"
    by (simp add: SpectrogramComputer_new_assert)
next
  assume "FbankOpts_Check fb = Inr ()"
  then show "FbankComputer_new X fb = Inl AssertionFailed \<longleftrightarrow>
      (\<exists>sc. SpectrogramComputer_new X (spectrogram_opts fb) = Inr sc) \<and>
      (SpectrogramOpts.apply_log (spectrogram_opts fb) \<or>
       use_log_raw_energy (spectrogram_opts fb))"
    using FbankOpts_Check_Inr [of fb] by (simp add: FbankComputer_new_assert)
next
  assume "MfccOpts_Check m = Inr ()"
  then show "MfccComputer_new X m = Inl AssertionFailed \<longleftrightarrow>
      FbankComputer_new X (fbank_opts m) = Inl AssertionFailed \<or>
      (\<exists>fc. FbankComputer_new X (fbank_opts m) = Inr fc) \<and>
      \<not> (apply_pow (spectrogram_opts (fbank_opts m)) \<and> FbankOpts.apply_log (fbank_opts m))"
    by (simp add: MfccComputer_new_assert)
qed

text \<open>
  The default options of the four tiers pass \<open>Check\<close>; none of the four
  constructors ends at an assertion, and the computers are built.
\<close>

theorem constructors_after_Check_witness:
  "FrameOpts_Check FrameOpts_default = Inr ()
   \<and> FrameSplitter_new externals_example FrameOpts_default \<noteq> Inl AssertionFailed
   \<and> SpectrogramOpts_Check SpectrogramOpts_default = Inr ()
   \<and> SpectrogramComputer_new externals_example SpectrogramOpts_default \<noteq> Inl AssertionFailed
   \<and> FbankOpts_Check FbankOpts_default = Inr ()
   \<and> FbankComputer_new externals_example FbankOpts_default \<noteq> Inl AssertionFailed
   \<and> MfccOpts_Check MfccOpts_default = Inr ()
   \<and> MfccComputer_new externals_example MfccOpts_default \<noteq> Inl AssertionFailed
   \<and> (\<exists>c. MfccComputer_new externals_example MfccOpts_default = Inr c)"
proof -
  have fb: "\<exists>c. FbankComputer_new externals_example FbankOpts_default = Inr c"
    using FbankOpts_new_built [of 0 True True] by (simp add: FbankOpts_default_def)
  have m: "\<exists>c. MfccComputer_new externals_example MfccOpts_default = Inr c"
    using MfccOpts_new_built [of True "Finite 22"] by (simp add: MfccOpts_default_def)
  have fbm: "\<exists>c. FbankComputer_new externals_example (fbank_opts MfccOpts_default) = Inr c"
    using m by (auto simp: MfccComputer_new_def split: sum.splits)
  have flags: "\<not> SpectrogramOpts.apply_log (spectrogram_opts FbankOpts_default)"
    "\<not> use_log_raw_energy (spectrogram_opts FbankOpts_default)"
    "apply_pow (spectrogram_opts (fbank_opts MfccOpts_default))"
    "FbankOpts.apply_log (fbank_opts MfccOpts_default)"
    by (simp_all add: MfccOpts_default_def MfccOpts_new_def FbankOpts_default_def
        FbankOpts_new_def SpectrogramOpts_default_def SpectrogramOpts_new_def)
  show ?thesis
    using constructors_after_Check [of FrameOpts_default externals_example
        SpectrogramOpts_default FbankOpts_default MfccOpts_default]
      default_checks flags m fbm
    by auto
qed

text \<open>
  The claim as stated fails. Default Fbank options whose field
  \<open>spectrogram_opts.apply_log\<close> has been set pass \<open>Check\<close>, and the constructor of
  \<open>FbankComputer\<close> stops at its assertion on the flags. Mfcc options built from
  Fbank options with apply-log off pass \<open>Check\<close>, and the constructor of
  \<open>MfccComputer\<close> stops at its last assertion.
\<close>

theorem constructors_after_Check_counterexample:
  "FbankOpts_Check
     (FbankOpts_default\<lparr>spectrogram_opts :=
        (spectrogram_opts FbankOpts_default)\<lparr>SpectrogramOpts.apply_log := True\<rparr>\<rparr>) = Inr ()
   \<and> FbankComputer_new externals_example
     (FbankOpts_default\<lparr>spectrogram_opts :=
        (spectrogram_opts FbankOpts_default)\<lparr>SpectrogramOpts.apply_log := True\<rparr>\<rparr>)
     = Inl AssertionFailed
   \<and> MfccOpts_Check (MfccOpts_of_FbankOpts (FbankOpts_new 23 20 0 True False)) = Inr ()
   \<and> MfccComputer_new externals_example
       (MfccOpts_of_FbankOpts (FbankOpts_new 23 20 0 True False))
     = Inl AssertionFailed"
proof -
  let ?fb = "FbankOpts_default\<lparr>spectrogram_opts :=
        (spectrogram_opts FbankOpts_default)\<lparr>SpectrogramOpts.apply_log := True\<rparr>\<rparr>"
  let ?m = "MfccOpts_of_FbankOpts (FbankOpts_new 23 20 0 True False)"
  have check_fb: "FbankOpts_Check ?fb = Inr ()"
    by (simp add: FbankOpts_Check_def FbankOpts_default_def FbankOpts_new_def
        SpectrogramOpts_Check_def SpectrogramOpts_default_def SpectrogramOpts_new_def
        FrameOpts_Check_def FrameOpts_default_def FrameOpts_new_def ASSERT_def word_sle_eq)
  have "frame_opts (spectrogram_opts ?fb) = FrameOpts_default"
    by (simp add: FbankOpts_default_def FbankOpts_new_def SpectrogramOpts_default_def
        SpectrogramOpts_new_def)
  from spectrogram_built [OF this]
  have new_fb: "FbankComputer_new externals_example ?fb = Inl AssertionFailed"
    using check_fb by (simp add: FbankComputer_new_def ASSERT_def)
  have check_m: "MfccOpts_Check ?m = Inr ()"
    using FbankOpts_new_Check [of 0 True False]
    by (simp add: MfccOpts_Check_def MfccOpts_of_FbankOpts_def ASSERT_def word_sle_eq)
  obtain fc where fc: "FbankComputer_new externals_example (FbankOpts_new 23 20 0 True False) = Inr fc"
    using FbankOpts_new_built [of 0 True False] by auto
  have new_m: "MfccComputer_new externals_example ?m = Inl AssertionFailed"
    using check_m fc
    by (simp add: MfccComputer_new_def MfccOpts_of_FbankOpts_def FbankOpts_new_def
        ASSERT_def new_Float32_def word_sless_alt Let_def)
  from check_fb new_fb check_m new_m show ?thesis by simp
qed

text \<open>
  Frame options of negative length and shift pass \<open>Check\<close>; the constructor of
  \<open>FrameSplitter\<close> then asks for an array of negative size.
\<close>

lemma negative_length_not_built:
  "FrameOpts_Check (FrameOpts_new (- 1) (- 160) 16000 (Finite (97 / 100)) kHamm True) = Inr ()
   \<and> FrameSplitter_new X (FrameOpts_new (- 1) (- 160) 16000 (Finite (97 / 100)) kHamm True)
       = Inl BadArrayNewLength"
  by (simp add: FrameSplitter_new_def FrameOpts_Check_def FrameOpts_new_def ASSERT_def
      new_Float32_def word_sle_eq word_sless_alt)

subsection \<open>Machine integers and buffers\<close>

lemma sint_plus_one: 
  assumes "i <s n" shows "sint (i + 1 :: Int32) = sint i + 1"
proof -
  have "sint n < 2 ^ 31" using sint_lt [of n] by simp
  moreover have "sint i < sint n" using assms by (simp add: word_sless_alt)
  moreover have "- (2 ^ 31) \<le> sint i" using sint_ge [of i] by simp
  ultimately show ?thesis
    by (simp add: sint_word_ariths signed_take_bit_int_eq_self)
qed

lemma sint_word_of_nat_small:
  "k < 2 ^ 31 \<Longrightarrow> sint (word_of_nat k :: Int32) = int k"
  by (simp add: signed_of_nat signed_take_bit_int_eq_self)

lemma center_freq_eq: "signed_drop_bit 1 (w :: Int32) = word_of_int (sint w div 2)"
proof -
  have "sint (signed_drop_bit 1 w) = sint w div 2"
    by (simp add: sint_signed_drop_bit_eq drop_bit_eq_div)
  then have "word_of_int (sint (signed_drop_bit 1 w)) = (word_of_int (sint w div 2) :: Int32)"
    by simp
  then show ?thesis by simp
qed

lemma sint_center_plus:
  fixes sr ub :: Int32
  assumes "0 \<le> sint sr" "sint ub \<le> 0"
  shows "sint (word_of_int (sint sr div 2) + ub) = sint sr div 2 + sint ub"
proof -
  have c: "sint (word_of_int (sint sr div 2) :: Int32) = sint sr div 2"
    using center_freq_eq [of sr] by (simp add: sint_signed_drop_bit_eq drop_bit_eq_div flip: center_freq_eq)
  have "sint sr < 2 ^ 31" using sint_lt [of sr] by simp
  moreover have "- (2 ^ 31) \<le> sint ub" using sint_ge [of ub] by simp
  ultimately show ?thesis using assms c
    by (simp add: sint_word_ariths signed_take_bit_int_eq_self)
qed

lemma length_Float32_array [simp]: "length (Float32_array n) = nat (sint n)"
  by (simp add: Float32_array_def)

subsection \<open>The Fbank configuration and its flags\<close>

text \<open>
  C4. The claim holds for the constructor with defaults and for \<open>ParseConfigure\<close>,
  which both switch the two flags off (the two lemmas below). The constructor from a
  \<open>SpectrogramOpts\<close> copies its argument and switches nothing off: built from the
  default spectrogram options, or from spectrogram options built from frame options,
  the Fbank options keep apply-log and use-log-raw-energy on. They pass \<open>Check\<close>,
  and the constructor of \<open>FbankComputer\<close> then stops at its own assertion that
  both flags are off.
\<close>

theorem FbankOpts_of_SpectrogramOpts_keeps_flags:
  "SpectrogramOpts.apply_log
     (spectrogram_opts (FbankOpts_of_SpectrogramOpts SpectrogramOpts_default))
   \<and> use_log_raw_energy
     (spectrogram_opts (FbankOpts_of_SpectrogramOpts SpectrogramOpts_default))
   \<and> SpectrogramOpts.apply_log
     (spectrogram_opts
        (FbankOpts_of_SpectrogramOpts (SpectrogramOpts_of_FrameOpts FrameOpts_default)))
   \<and> FbankOpts_Check (FbankOpts_of_SpectrogramOpts SpectrogramOpts_default) = Inr ()
   \<and> FbankComputer_new externals_example (FbankOpts_of_SpectrogramOpts SpectrogramOpts_default)
       = Inl AssertionFailed"
  using spectrogram_built [of SpectrogramOpts_default]
  by (simp add: FbankOpts_of_SpectrogramOpts_def SpectrogramOpts_default_def
      SpectrogramOpts_new_def SpectrogramOpts_of_FrameOpts_def FbankComputer_new_def
      FbankOpts_Check_def SpectrogramOpts_Check_def FrameOpts_Check_def FrameOpts_default_def
      FrameOpts_new_def ASSERT_def word_sle_eq Let_def)

lemma FbankOpts_new_flags_off:
  "\<not> SpectrogramOpts.apply_log (spectrogram_opts (FbankOpts_new num_bins low high p l))
   \<and> \<not> use_log_raw_energy (spectrogram_opts (FbankOpts_new num_bins low high p l))"
  by (simp add: FbankOpts_new_def)

lemma FbankOpts_ParseConfigure_flags_off:
  "FbankOpts_ParseConfigure StringToWindow parser opts = Inr opts' \<Longrightarrow>
   \<not> SpectrogramOpts.apply_log (spectrogram_opts opts')
   \<and> \<not> use_log_raw_energy (spectrogram_opts opts')"
  by (auto simp: FbankOpts_ParseConfigure_def Let_def split: sum.splits)

text \<open>
  The constructor of \<open>FbankOpts\<close> with defaults and \<open>FbankOpts::ParseConfigure\<close>
  leave apply-log and use-log-raw-energy of the embedded spectrogram options off;
  the constructor of \<open>MfccOpts\<close> with defaults leaves apply-pow of the spectrogram
  options and apply-log of the Fbank options on, and \<open>MfccOpts::ParseConfigure\<close>
  leaves all four flags so, whatever the parser holds.
\<close>

theorem configuration_flags_forced:
  "\<not> SpectrogramOpts.apply_log (spectrogram_opts (FbankOpts_new num_bins low high p l))
   \<and> \<not> use_log_raw_energy (spectrogram_opts (FbankOpts_new num_bins low high p l))
   \<and> (FbankOpts_ParseConfigure StringToWindow parser fb = Inr fb' \<longrightarrow>
        \<not> SpectrogramOpts.apply_log (spectrogram_opts fb') \<and>
        \<not> use_log_raw_energy (spectrogram_opts fb'))
   \<and> apply_pow (spectrogram_opts (fbank_opts (MfccOpts_new n e c)))
   \<and> FbankOpts.apply_log (fbank_opts (MfccOpts_new n e c))
   \<and> (MfccOpts_ParseConfigure StringToWindow parser m = Inr m' \<longrightarrow>
        apply_pow (spectrogram_opts (fbank_opts m')) \<and> FbankOpts.apply_log (fbank_opts m') \<and>
        \<not> SpectrogramOpts.apply_log (spectrogram_opts (fbank_opts m')) \<and>
        \<not> use_log_raw_energy (spectrogram_opts (fbank_opts m')))"
proof (intro conjI impI)
  show "\<not> SpectrogramOpts.apply_log (spectrogram_opts (FbankOpts_new num_bins low high p l))"
    "\<not> use_log_raw_energy (spectrogram_opts (FbankOpts_new num_bins low high p l))"
    by (simp_all add: FbankOpts_new_def)
  show "apply_pow (spectrogram_opts (fbank_opts (MfccOpts_new n e c)))"
    "FbankOpts.apply_log (fbank_opts (MfccOpts_new n e c))"
    by (simp_all add: MfccOpts_new_def)
next
  assume "FbankOpts_ParseConfigure StringToWindow parser fb = Inr fb'"
  then show "\<not> SpectrogramOpts.apply_log (spectrogram_opts fb')"
    "\<not> use_log_raw_energy (spectrogram_opts fb')"
    using FbankOpts_ParseConfigure_flags_off by blast+
next
  assume a: "MfccOpts_ParseConfigure StringToWindow parser m = Inr m'"
  then obtain fo where fo: "FbankOpts_ParseConfigure StringToWindow parser (fbank_opts m) = Inr fo"
    and m': "spectrogram_opts (fbank_opts m') = (spectrogram_opts fo)\<lparr>apply_pow := True\<rparr>"
      "FbankOpts.apply_log (fbank_opts m')"
    by (auto simp: MfccOpts_ParseConfigure_def Let_def split: sum.splits)
  show "apply_pow (spectrogram_opts (fbank_opts m'))" using m' by simp
  show "FbankOpts.apply_log (fbank_opts m')" using m' by simp
  show "\<not> SpectrogramOpts.apply_log (spectrogram_opts (fbank_opts m'))"
    "\<not> use_log_raw_energy (spectrogram_opts (fbank_opts m'))"
    using m' FbankOpts_ParseConfigure_flags_off [OF fo] by simp_all
qed

text \<open>
  Mfcc options built from Fbank options built from the default spectrogram options,
  with all flags on, and a parser that sets every flag: after \<open>ParseConfigure\<close> the
  four flags are as the computers need them.
\<close>

theorem configuration_flags_forced_witness:
  "\<exists>m'. MfccOpts_ParseConfigure (\<lambda>window. Inr kHamm)
          \<lparr>AddOptions_Int32 = (\<lambda>section key v. v), AddOptions_Float32 = (\<lambda>section key v. v),
           AddOptions_Bool = (\<lambda>section key v. True), AddOptions_string = (\<lambda>section key v. v)\<rparr>
          (MfccOpts_of_FbankOpts (FbankOpts_of_SpectrogramOpts SpectrogramOpts_default)) = Inr m' \<and>
        apply_pow (spectrogram_opts (fbank_opts m')) \<and> FbankOpts.apply_log (fbank_opts m') \<and>
        \<not> SpectrogramOpts.apply_log (spectrogram_opts (fbank_opts m')) \<and>
        \<not> use_log_raw_energy (spectrogram_opts (fbank_opts m'))"
proof -
  let ?parser = "\<lparr>AddOptions_Int32 = (\<lambda>section key v. v),
      AddOptions_Float32 = (\<lambda>section key v. v),
      AddOptions_Bool = (\<lambda>section key v. True), AddOptions_string = (\<lambda>section key v. v)\<rparr>"
  let ?m = "MfccOpts_of_FbankOpts (FbankOpts_of_SpectrogramOpts SpectrogramOpts_default)"
  have "\<exists>m'. MfccOpts_ParseConfigure (\<lambda>window. Inr kHamm) ?parser ?m = Inr m'"
    by (simp add: MfccOpts_ParseConfigure_def FbankOpts_ParseConfigure_def
        SpectrogramOpts_ParseConfigure_def FrameOpts_ParseConfigure_def Let_def)
  then obtain m' where m': "MfccOpts_ParseConfigure (\<lambda>window. Inr kHamm) ?parser ?m = Inr m'" ..
  show ?thesis
    using configuration_flags_forced [where StringToWindow = "\<lambda>window. Inr kHamm"
        and parser = ?parser and m = ?m and m' = m'] m'
    by blast
qed

subsection \<open>What the calls of a computer leave unchanged\<close>

lemma run_preserves:
  assumes step: "\<And>x c c'. step x c = Inr c' \<Longrightarrow> f c' = f c"
  shows "run step xs c = Inr c' \<Longrightarrow> f c' = f c"
proof (induction xs arbitrary: c)
  case Nil
  then show ?case by simp
next
  case (Cons x xs)
  then show ?case by (auto split: sum.splits dest: step)
qed

lemma SpectrogramComputer_call_fields:
  "SpectrogramComputer_call E x c = Inr c' \<Longrightarrow> padding_length' c' = padding_length' c"
  by (cases x)
    (auto simp: SpectrogramComputer_ComputeFrame_def SpectrogramComputer_Reset_def
      split: sum.splits)

lemma FbankComputer_call_fields:
  "FbankComputer_call E x c = Inr c' \<Longrightarrow>
   num_bins' c' = num_bins' c \<and> upper_bound' c' = upper_bound' c"
  by (cases x) (auto simp: FbankComputer_ComputeFrame_def FbankComputer_Reset_def split: sum.splits)

lemma MfccComputer_call_fields:
  "MfccComputer_call E x c = Inr c' \<Longrightarrow> num_ceps' c' = num_ceps' c"
  by (cases x)
    (auto simp: MfccComputer_ComputeFrame_def MfccComputer_Reset_def split: sum.splits)

lemma SpectrogramComputer_new_padding:
  "SpectrogramComputer_new X so = Inr c \<Longrightarrow>
   padding_length' c = RoundUpToNearestPowerOfTwo X (frame_length (frame_opts so))"
  by (auto simp: SpectrogramComputer_new_def FrameSplitter_new_def FrameSplitter_PaddingLength_def
      Let_def split: sum.splits if_splits)

lemma FbankComputer_new_num_bins:
  "FbankComputer_new X fb = Inr c \<Longrightarrow> num_bins' c = num_mel_bins fb"
  by (auto simp: FbankComputer_new_def Let_def split: sum.splits)

lemma FbankComputer_new_upper_bound:
  "FbankComputer_new X fb = Inr c \<Longrightarrow>
   upper_bound' c =
     (if 0 <s upper_bound fb then upper_bound fb
      else signed_drop_bit 1 (sample_rate (frame_opts (spectrogram_opts fb))) + upper_bound fb)"
  by (auto simp: FbankComputer_new_def Let_def split: sum.splits)

lemma MfccComputer_new_fields:
  "MfccComputer_new X m = Inr c \<Longrightarrow>
   num_ceps' c = num_ceps m \<and> 1 \<le>s num_ceps m \<and>
   lifter_coeffs' c = lifter_loop (num_ceps m) (cepstral_lifter m) 0 (Float32_array (num_ceps m))"
  by (auto simp: MfccComputer_new_def MfccOpts_Check_def Let_def ASSERT_def new_Float32_Inr
      split: sum.splits if_splits)

subsection \<open>The upper frequency bound\<close>

text \<open>
  C7. In a constructed \<open>FbankComputer\<close> the upper bound is the configured one when
  that is positive, and otherwise half the sample rate plus the configured bound, in
  32-bit arithmetic; the half is the arithmetic shift \<open>sample_rate >> 1\<close>, which rounds
  down. For a sample rate that is not negative the sum does not wrap around. The
  mel filters are built from this bound. The bound is set by the constructor and no
  later call changes it.
\<close>

theorem upper_bound_resolution:
  "FbankComputer_new X fb = Inr c \<Longrightarrow>
   upper_bound' c =
     (if 0 < sint (upper_bound fb) then upper_bound fb
      else word_of_int (sint (sample_rate (frame_opts (spectrogram_opts fb))) div 2)
           + upper_bound fb)
   \<and> (0 \<le> sint (sample_rate (frame_opts (spectrogram_opts fb))) \<and> sint (upper_bound fb) \<le> 0 \<longrightarrow>
        sint (upper_bound' c) =
          sint (sample_rate (frame_opts (spectrogram_opts fb))) div 2 + sint (upper_bound fb))
   \<and> mel_coeff' c =
       ComputeMelFilters X (SpectrogramComputer_FeatureDim (spectrogram_computer' c))
         (num_mel_bins fb) (signed_drop_bit 1 (sample_rate (frame_opts (spectrogram_opts fb))))
         (lower_bound fb) (upper_bound' c)
   \<and> (run (FbankComputer_call E) calls c = Inr c' \<longrightarrow> upper_bound' c' = upper_bound' c)"
proof (intro conjI impI)
  assume new: "FbankComputer_new X fb = Inr c"
  show "mel_coeff' c =
       ComputeMelFilters X (SpectrogramComputer_FeatureDim (spectrogram_computer' c))
         (num_mel_bins fb) (signed_drop_bit 1 (sample_rate (frame_opts (spectrogram_opts fb))))
         (lower_bound fb) (upper_bound' c)"
    using new by (auto simp: FbankComputer_new_def Let_def split: sum.splits)
  show eq: "upper_bound' c =
     (if 0 < sint (upper_bound fb) then upper_bound fb
      else word_of_int (sint (sample_rate (frame_opts (spectrogram_opts fb))) div 2)
           + upper_bound fb)"
    using FbankComputer_new_upper_bound [OF new] 
    by (simp add: word_sless_alt flip: center_freq_eq)
  show "sint (upper_bound' c) =
          sint (sample_rate (frame_opts (spectrogram_opts fb))) div 2 + sint (upper_bound fb)"
    if "0 \<le> sint (sample_rate (frame_opts (spectrogram_opts fb))) \<and> sint (upper_bound fb) \<le> 0"
    using that eq by (simp add: sint_center_plus)
  show "upper_bound' c' = upper_bound' c" if "run (FbankComputer_call E) calls c = Inr c'"
    using that by (rule run_preserves [rotated]) (simp add: FbankComputer_call_fields)
qed

text \<open>
  With the default sample rate of 16000: the bound 0 becomes 8000 and stays so after
  calls, the bound 7600 is kept, the bound \<open>-400\<close> becomes 7600.
\<close>

theorem upper_bound_resolution_witness:
  "(\<exists>c. FbankComputer_new externals_example FbankOpts_default = Inr c \<and>
        upper_bound' c = 8000 \<and> sint (upper_bound' c) = 8000 \<and>
        (\<exists>c'. run (FbankComputer_call frame_effects_example) [Call_Reset, Call_FeatureDim] c
                = Inr c' \<and> upper_bound' c' = 8000))
   \<and> (\<exists>c. FbankComputer_new externals_example (FbankOpts_new 23 20 7600 True True) = Inr c \<and>
        upper_bound' c = 7600)
   \<and> (\<exists>c. FbankComputer_new externals_example (FbankOpts_new 23 20 (- 400) True True) = Inr c \<and>
        upper_bound' c = 7600)"
proof (intro conjI)
  obtain c where c: "FbankComputer_new externals_example FbankOpts_default = Inr c"
    using FbankOpts_new_built [of 0 True True] by (auto simp: FbankOpts_default_def)
  have r: "run (FbankComputer_call frame_effects_example) [Call_Reset, Call_FeatureDim] c
           = Inr (FbankComputer_Reset c)"
    by simp
  have "upper_bound' c = 8000 \<and> sint (upper_bound' c) = 8000 \<and>
        upper_bound' (FbankComputer_Reset c) = 8000"
    using upper_bound_resolution [OF c, of frame_effects_example
        "[Call_Reset, Call_FeatureDim]" "FbankComputer_Reset c"] r
    by (simp add: FbankOpts_default_def FbankOpts_new_def SpectrogramOpts_default_def
        SpectrogramOpts_new_def FrameOpts_default_def FrameOpts_new_def)
  with c r show "\<exists>c. FbankComputer_new externals_example FbankOpts_default = Inr c \<and>
        upper_bound' c = 8000 \<and> sint (upper_bound' c) = 8000 \<and>
        (\<exists>c'. run (FbankComputer_call frame_effects_example) [Call_Reset, Call_FeatureDim] c
                = Inr c' \<and> upper_bound' c' = 8000)"
    by blast
next
  obtain c where c: "FbankComputer_new externals_example (FbankOpts_new 23 20 7600 True True) = Inr c"
    using FbankOpts_new_built [of 7600 True True] by auto
  have "upper_bound' c = 7600"
    using upper_bound_resolution [OF c]
    by (simp add: FbankOpts_new_def)
  with c show "\<exists>c. FbankComputer_new externals_example (FbankOpts_new 23 20 7600 True True) = Inr c \<and>
        upper_bound' c = 7600" by blast
next
  obtain c where c: "FbankComputer_new externals_example (FbankOpts_new 23 20 (- 400) True True) = Inr c"
    using FbankOpts_new_built [of "- 400" True True] by auto
  have "upper_bound' c = 7600"
    using upper_bound_resolution [OF c]
    by (simp add: FbankOpts_new_def SpectrogramOpts_default_def
        SpectrogramOpts_new_def FrameOpts_default_def FrameOpts_new_def)
  with c show "\<exists>c. FbankComputer_new externals_example (FbankOpts_new 23 20 (- 400) True True) = Inr c \<and>
        upper_bound' c = 7600" by blast
qed

subsection \<open>The feature dimension\<close>

text \<open>
  C6. After any sequence of calls on a constructed computer, \<open>FeatureDim()\<close> is what
  it was after construction: \<open>padding_length / 2 + 1\<close> for a \<open>SpectrogramComputer\<close>,
  where the padding length is \<open>RoundUpToNearestPowerOfTwo\<close> of the frame length, the
  configured number of mel bins for an \<open>FbankComputer\<close>, the configured number of
  cepstral coefficients for an \<open>MfccComputer\<close>.
\<close>

theorem FeatureDim_constant:
  "(SpectrogramComputer_new X so = Inr sc \<and>
    run (SpectrogramComputer_call E) calls sc = Inr sc' \<longrightarrow>
      SpectrogramComputer_FeatureDim sc' =
        Int32_div (SpectrogramComputer_PaddingLength sc') 2 + 1 \<and>
      SpectrogramComputer_PaddingLength sc' =
        RoundUpToNearestPowerOfTwo X (frame_length (frame_opts so)) \<and>
      SpectrogramComputer_FeatureDim sc' = SpectrogramComputer_FeatureDim sc)
   \<and> (FbankComputer_new X fb = Inr fc \<and> run (FbankComputer_call E) calls fc = Inr fc' \<longrightarrow>
      FbankComputer_FeatureDim fc' = num_mel_bins fb \<and>
      FbankComputer_FeatureDim fc' = FbankComputer_FeatureDim fc)
   \<and> (MfccComputer_new X m = Inr mc \<and> run (MfccComputer_call E) calls mc = Inr mc' \<longrightarrow>
      MfccComputer_FeatureDim mc' = num_ceps m \<and>
      MfccComputer_FeatureDim mc' = MfccComputer_FeatureDim mc)"
proof (intro conjI impI)
  assume a: "SpectrogramComputer_new X so = Inr sc \<and>
    run (SpectrogramComputer_call E) calls sc = Inr sc'"
  have same: "padding_length' sc' = padding_length' sc"
    using a by (intro run_preserves [of "SpectrogramComputer_call E" padding_length' calls sc sc'])
      (simp_all add: SpectrogramComputer_call_fields)
  show "SpectrogramComputer_FeatureDim sc' =
        Int32_div (SpectrogramComputer_PaddingLength sc') 2 + 1"
    by (simp add: SpectrogramComputer_FeatureDim_def SpectrogramComputer_PaddingLength_def)
  show "SpectrogramComputer_PaddingLength sc' =
        RoundUpToNearestPowerOfTwo X (frame_length (frame_opts so))"
    using a same SpectrogramComputer_new_padding [of X so sc]
    by (simp add: SpectrogramComputer_PaddingLength_def)
  show "SpectrogramComputer_FeatureDim sc' = SpectrogramComputer_FeatureDim sc"
    using same by (simp add: SpectrogramComputer_FeatureDim_def)
next
  assume a: "FbankComputer_new X fb = Inr fc \<and> run (FbankComputer_call E) calls fc = Inr fc'"
  have same: "num_bins' fc' = num_bins' fc"
    using a by (intro run_preserves [of "FbankComputer_call E" num_bins' calls fc fc'])
      (simp_all add: FbankComputer_call_fields)
  show "FbankComputer_FeatureDim fc' = num_mel_bins fb"
    using a same FbankComputer_new_num_bins [of X fb fc] by (simp add: FbankComputer_FeatureDim_def)
  show "FbankComputer_FeatureDim fc' = FbankComputer_FeatureDim fc"
    using same by (simp add: FbankComputer_FeatureDim_def)
next
  assume a: "MfccComputer_new X m = Inr mc \<and> run (MfccComputer_call E) calls mc = Inr mc'"
  have same: "num_ceps' mc' = num_ceps' mc"
    using a by (intro run_preserves [of "MfccComputer_call E" num_ceps' calls mc mc'])
      (simp_all add: MfccComputer_call_fields)
  show "MfccComputer_FeatureDim mc' = num_ceps m"
    using a same MfccComputer_new_fields [of X m mc] by (simp add: MfccComputer_FeatureDim_def)
  show "MfccComputer_FeatureDim mc' = MfccComputer_FeatureDim mc"
    using same by (simp add: MfccComputer_FeatureDim_def)
qed

text \<open>
  The default options: frame length 400, padding length 512, dimension 257, before
  and after counting the frames of 1000 samples, computing the last of them and a
  reset; 23 mel bins; 13 cepstral coefficients.
\<close>

lemma NumFrames_1000:
  "FrameSplitter_NumFrames
     \<lparr>frame_opts' = FrameOpts_default, window' = w, online_use' = u, prev_discard_size' = 0\<rparr>
     1000 = Inr (4, [])"
  by (simp add: FrameSplitter_NumFrames_def FrameOpts_default_def FrameOpts_new_def
      Int32_div_numeral)

lemma default_spectrogram:
  "SpectrogramComputer_new externals_example SpectrogramOpts_default =
     Inr \<lparr>apply_pow' = True, SpectrogramComputer.apply_log' = True, use_log_raw_energy' = True,
          padding_length' = 512,
          splitter = \<lparr>frame_opts' = FrameOpts_default, window' = Some (Float32_array 400),
                      online_use' = Float32_array 800, prev_discard_size' = 0\<rparr>,
          fft_computer = FFTComputer_new 512, realfft_cache' = Float32_array 512\<rparr>"
  using spectrogram_built [of SpectrogramOpts_default]
  by (simp add: SpectrogramOpts_default_def SpectrogramOpts_new_def)

lemma FrameForIndex_spec_last_of_1000:
  "\<exists>sp'. FrameForIndex_spec
     \<lparr>frame_opts' = FrameOpts_default, window' = w,
      online_use' = Float32_array 800, prev_discard_size' = 0\<rparr>
     (replicate 1000 (Finite 1)) 1000 3 (Float32_array 400) 0 = Inr sp'"
  by (simp add: FrameForIndex_spec_def NumFrames_1000 stream_of_def Let_def)
    (simp add: FrameOpts_default_def FrameOpts_new_def Float32_array_def word_sless_alt)

theorem FeatureDim_constant_witness:
  "(\<exists>sc sc'. SpectrogramComputer_new externals_example SpectrogramOpts_default = Inr sc \<and>
      run (SpectrogramComputer_call frame_effects_example)
        [Call_FeatureDim, Call_NumFrames 1000,
         Call_ComputeFrame (replicate 1000 (Finite 1)) 1000 3, Call_Reset, Call_FeatureDim] sc
        = Inr sc' \<and>
      SpectrogramComputer_FeatureDim sc = 257 \<and> SpectrogramComputer_FeatureDim sc' = 257)
   \<and> (\<exists>fc fc'. FbankComputer_new externals_example FbankOpts_default = Inr fc \<and>
      run (FbankComputer_call frame_effects_example) [Call_FeatureDim, Call_Reset] fc = Inr fc' \<and>
      FbankComputer_FeatureDim fc' = 23)
   \<and> (\<exists>mc mc'. MfccComputer_new externals_example MfccOpts_default = Inr mc \<and>
      run (MfccComputer_call frame_effects_example) [Call_FeatureDim, Call_Reset] mc = Inr mc' \<and>
      MfccComputer_FeatureDim mc' = 13)"
proof (intro conjI)
  let ?sp = "\<lparr>frame_opts' = FrameOpts_default, window' = Some (Float32_array 400),
              online_use' = Float32_array 800, prev_discard_size' = 0\<rparr>"
  let ?sc = "\<lparr>apply_pow' = True, SpectrogramComputer.apply_log' = True,
              use_log_raw_energy' = True, padding_length' = 512, splitter = ?sp,
              fft_computer = FFTComputer_new 512, realfft_cache' = Float32_array 512\<rparr>"
  let ?calls = "[Call_FeatureDim, Call_NumFrames 1000,
         Call_ComputeFrame (replicate 1000 (Finite 1)) 1000 3, Call_Reset, Call_FeatureDim]"
  have len: "frame_length FrameOpts_default = 400"
    by (simp add: FrameOpts_default_def FrameOpts_new_def)
  obtain st where st: "FrameForIndex_spec ?sp (replicate 1000 (Finite 1)) 1000 3
      (Float32_array 400) 0 = Inr st"
    using FrameForIndex_spec_last_of_1000 by blast
  have "\<exists>sc'. run (SpectrogramComputer_call frame_effects_example) ?calls ?sc = Inr sc'"
    using st
    by (simp add: SpectrogramComputer_NumFrames_def NumFrames_1000
        SpectrogramComputer_ComputeFrame_def frame_effects_example_def len split: prod.splits)
  then obtain sc' where
    run: "run (SpectrogramComputer_call frame_effects_example) ?calls ?sc = Inr sc'" ..
  have pl: "RoundUpToNearestPowerOfTwo externals_example
              (frame_length (frame_opts SpectrogramOpts_default)) = 512"
    using RoundUp_400
    by (simp add: SpectrogramOpts_default_def SpectrogramOpts_new_def len externals_example_def)
  have half: "Int32_div 512 2 + 1 = 257"
    by (simp add: Int32_div_numeral)
  have "SpectrogramComputer_FeatureDim sc' = 257 \<and> SpectrogramComputer_FeatureDim ?sc = 257"
    using FeatureDim_constant [THEN conjunct1, rule_format,
        of externals_example SpectrogramOpts_default ?sc frame_effects_example ?calls sc',
        OF conjI [OF default_spectrogram run]] pl half
    by (simp add: SpectrogramComputer_FeatureDim_def SpectrogramComputer_PaddingLength_def)
  with default_spectrogram run
  show "\<exists>sc sc'. SpectrogramComputer_new externals_example SpectrogramOpts_default = Inr sc \<and>
      run (SpectrogramComputer_call frame_effects_example) ?calls sc = Inr sc' \<and>
      SpectrogramComputer_FeatureDim sc = 257 \<and> SpectrogramComputer_FeatureDim sc' = 257"
    by blast
next
  obtain fc where fc: "FbankComputer_new externals_example FbankOpts_default = Inr fc"
    using FbankOpts_new_built [of 0 True True] by (auto simp: FbankOpts_default_def)
  have run: "run (FbankComputer_call frame_effects_example) [Call_FeatureDim, Call_Reset] fc
             = Inr (FbankComputer_Reset fc)"
    by simp
  have "FbankComputer_FeatureDim (FbankComputer_Reset fc) = 23"
    using FeatureDim_constant [THEN conjunct2, THEN conjunct1, rule_format,
        of externals_example FbankOpts_default fc frame_effects_example
          "[Call_FeatureDim, Call_Reset]" "FbankComputer_Reset fc", OF conjI [OF fc run]]
    by (simp add: FbankOpts_default_def FbankOpts_new_def)
  with fc run
  show "\<exists>fc fc'. FbankComputer_new externals_example FbankOpts_default = Inr fc \<and>
      run (FbankComputer_call frame_effects_example) [Call_FeatureDim, Call_Reset] fc = Inr fc' \<and>
      FbankComputer_FeatureDim fc' = 23"
    by blast
next
  obtain mc where mc: "MfccComputer_new externals_example MfccOpts_default = Inr mc"
    using MfccOpts_new_built [of True "Finite 22"]
    by (auto simp: MfccOpts_default_def)
  have run: "run (MfccComputer_call frame_effects_example) [Call_FeatureDim, Call_Reset] mc
             = Inr (MfccComputer_Reset mc)"
    by simp
  have "MfccComputer_FeatureDim (MfccComputer_Reset mc) = 13"
    using FeatureDim_constant [THEN conjunct2, THEN conjunct2, rule_format,
        of externals_example MfccOpts_default mc frame_effects_example
          "[Call_FeatureDim, Call_Reset]" "MfccComputer_Reset mc", OF conjI [OF mc run]]
    by (simp add: MfccOpts_default_def MfccOpts_new_def)
  with mc run
  show "\<exists>mc mc'. MfccComputer_new externals_example MfccOpts_default = Inr mc \<and>
      run (MfccComputer_call frame_effects_example) [Call_FeatureDim, Call_Reset] mc = Inr mc' \<and>
      MfccComputer_FeatureDim mc' = 13"
    by blast
qed

subsection \<open>The liftering coefficients\<close>

lemma lifter_loop_cells:
  "0 \<le> sint i \<Longrightarrow> sint n \<le> int (length cs) \<Longrightarrow>
   length (lifter_loop n L i cs) = length cs \<and>
   (\<forall>k < length cs. lifter_loop n L i cs ! k =
      (if sint i \<le> int k \<and> int k < sint n then lifter_coeff L (word_of_nat k) else cs ! k))"
proof (induction n L i cs rule: lifter_loop.induct)
  case (1 n L i cs)
  show ?case
  proof (cases "i <s n")
    case False
    then show ?thesis
      by (subst (1 2) lifter_loop.simps) (auto simp: word_sless_alt)
  next
    case True
    then have s: "sint (i + 1) = sint i + 1" by (rule sint_plus_one)
    have lt: "sint i < sint n" using True by (simp add: word_sless_alt)
    have i_eq: "word_of_nat (nat (sint i)) = i" using "1.prems" by simp
    have IH: "length (lifter_loop n L (i + 1) (cs[nat (sint i) := lifter_coeff L i])) = length cs \<and>
       (\<forall>k < length cs. lifter_loop n L (i + 1) (cs[nat (sint i) := lifter_coeff L i]) ! k =
          (if sint (i + 1) \<le> int k \<and> int k < sint n then lifter_coeff L (word_of_nat k)
           else (cs[nat (sint i) := lifter_coeff L i]) ! k))"
      using "1.IH" [OF True] "1.prems" s by simp
    have unfold: "lifter_loop n L i cs = lifter_loop n L (i + 1) (cs[nat (sint i) := lifter_coeff L i])"
      using True by (subst lifter_loop.simps) simp
    show ?thesis
    proof (intro conjI allI impI)
      show "length (lifter_loop n L i cs) = length cs" using IH unfold by simp
      fix k assume k: "k < length cs"
      show "lifter_loop n L i cs ! k =
        (if sint i \<le> int k \<and> int k < sint n then lifter_coeff L (word_of_nat k) else cs ! k)"
      proof (cases "int k = sint i")
        case True
        then have "nat (sint i) = k" by simp
        with IH k unfold s lt i_eq True show ?thesis by auto
      next
        case False
        then have "nat (sint i) \<noteq> k" using "1.prems" by auto
        with IH k unfold s lt False show ?thesis by auto
      qed
    qed
  qed
qed

lemma MfccComputer_new_lifter:
  assumes "MfccComputer_new X m = Inr c" "k < nat (sint (num_ceps m))"
  shows "lifter_coeffs' c ! k = lifter_coeff (cepstral_lifter m) (word_of_nat k)"
    and "length (lifter_coeffs' c) = nat (sint (num_ceps m))"
  using MfccComputer_new_fields [OF assms(1)] assms(2)
    lifter_loop_cells [of 0 "num_ceps m" "Float32_array (num_ceps m)" "cepstral_lifter m"]
  by auto

lemma Float32_add_commute: "Float32_add a b = Float32_add b a"
  by (cases a; cases b) simp_all

lemma lifter_coeff_finite:
  "l \<noteq> 0 \<Longrightarrow> lifter_coeff (Finite l) i = Finite (1 + 0.5 * l * sin (pi * real_of_int (sint i) / l))"
  by (simp add: lifter_coeff_def PI_def Float32_of_Int32_def)

lemma lifter_coeff_zero_lifter: "lifter_coeff (Finite 0) i = NaN"
  by (simp add: lifter_coeff_def PI_def Float32_of_Int32_def)

lemma lifter_coeff_index_0: "0 < l \<Longrightarrow> lifter_coeff (Finite l) 0 = Finite 1"
  by (simp add: lifter_coeff_def PI_def Float32_of_Int32_def)

lemma lifter_coeff_infinite_lifter: "lifter_coeff PInf 0 = NaN"
  by (simp add: lifter_coeff_def PI_def Float32_of_Int32_def)

text \<open>
  C8, as amended. A constructed \<open>MfccComputer\<close> holds one liftering coefficient for
  each cepstral coefficient, and the one at index \<open>k\<close> is
  \<open>1 + 0.5 * cepstral_lifter * sin (pi * k / cepstral_lifter)\<close>: in the arithmetic of
  \<open>Float32\<close> for every lifter, as a real number for a finite lifter that is not
  zero. For a positive finite lifter the coefficient at index 0 is 1. For the positive
  lifter \<open>+\<infinity>\<close> it is not a number: \<open>0.5 * cepstral_lifter\<close> is infinite and
  \<open>sin (pi * 0 / cepstral_lifter)\<close> is zero.
\<close>

theorem lifter_coefficients:
  "MfccComputer_new X m = Inr c \<Longrightarrow> k < nat (sint (num_ceps m)) \<Longrightarrow>
   length (lifter_coeffs' c) = nat (sint (num_ceps m))
   \<and> lifter_coeffs' c ! k =
       Float32_add (Finite 1)
         (Float32_mult (Float32_mult (Finite (1 / 2)) (cepstral_lifter m))
            (Float32_sin (Float32_div (Float32_mult PI (Finite (real k))) (cepstral_lifter m))))
   \<and> (\<forall>l. cepstral_lifter m = Finite l \<and> l \<noteq> 0 \<longrightarrow>
          lifter_coeffs' c ! k = Finite (1 + 0.5 * l * sin (pi * real k / l)))
   \<and> (\<forall>l. cepstral_lifter m = Finite l \<and> 0 < l \<longrightarrow> lifter_coeffs' c ! 0 = Finite 1)
   \<and> (cepstral_lifter m = PInf \<longrightarrow> lifter_coeffs' c ! 0 = NaN)"
proof (intro conjI allI impI)
  assume new: "MfccComputer_new X m = Inr c" and k: "k < nat (sint (num_ceps m))"
  have small: "k < 2 ^ 31" using k sint_lt [of "num_ceps m"] by simp
  have sk: "sint (word_of_nat k :: Int32) = int k" using small by (rule sint_word_of_nat_small)
  have cell: "lifter_coeffs' c ! k = lifter_coeff (cepstral_lifter m) (word_of_nat k)"
    using new k by (rule MfccComputer_new_lifter)
  have cell0: "lifter_coeffs' c ! 0 = lifter_coeff (cepstral_lifter m) 0"
    using MfccComputer_new_lifter(1) [OF new, of 0] k by simp
  show "length (lifter_coeffs' c) = nat (sint (num_ceps m))"
    using new k by (rule MfccComputer_new_lifter)
  show "lifter_coeffs' c ! k =
       Float32_add (Finite 1)
         (Float32_mult (Float32_mult (Finite (1 / 2)) (cepstral_lifter m))
            (Float32_sin (Float32_div (Float32_mult PI (Finite (real k))) (cepstral_lifter m))))"
    using cell sk by (simp add: lifter_coeff_def Float32_of_Int32_def Float32_add_commute)
  show "lifter_coeffs' c ! k = Finite (1 + 0.5 * l * sin (pi * real k / l))"
    if "cepstral_lifter m = Finite l \<and> l \<noteq> 0" for l
    using that cell sk by (simp add: lifter_coeff_finite)
  show "lifter_coeffs' c ! 0 = Finite 1" if "cepstral_lifter m = Finite l \<and> 0 < l" for l
    using that cell0 by (simp add: lifter_coeff_index_0)
  show "lifter_coeffs' c ! 0 = NaN" if "cepstral_lifter m = PInf"
    using that cell0 by (simp add: lifter_coeff_infinite_lifter)
qed

text \<open>
  The default lifter 22 and 13 coefficients: the coefficient at index 0 is 1, the one
  at index 11 is \<open>1 + 11 * sin (pi / 2) = 12\<close>. With the lifter \<open>+\<infinity>\<close> the
  coefficient at index 0 is not a number.
\<close>

theorem lifter_coefficients_witness:
  "(\<exists>c. MfccComputer_new externals_example MfccOpts_default = Inr c \<and>
       length (lifter_coeffs' c) = 13 \<and>
       lifter_coeffs' c ! 0 = Finite 1 \<and>
       lifter_coeffs' c ! 11 = Finite (1 + 0.5 * 22 * sin (pi * 11 / 22)) \<and>
       lifter_coeffs' c ! 11 = Finite 12)
   \<and> (\<exists>c. MfccComputer_new externals_example (MfccOpts_new 13 True PInf) = Inr c \<and>
       cepstral_lifter (MfccOpts_new 13 True PInf) = PInf \<and>
       lifter_coeffs' c ! 0 = NaN)"
proof
  obtain c where c: "MfccComputer_new externals_example MfccOpts_default = Inr c"
    using MfccOpts_new_built [of True "Finite 22"]
    by (auto simp: MfccOpts_default_def)
  have "length (lifter_coeffs' c) = 13 \<and> lifter_coeffs' c ! 0 = Finite 1 \<and>
       lifter_coeffs' c ! 11 = Finite (1 + 0.5 * 22 * sin (pi * 11 / 22))"
    using lifter_coefficients [OF c, of 11] lifter_coefficients [OF c, of 0]
    by (simp add: MfccOpts_default_def MfccOpts_new_def PI_def)
  with c show "\<exists>c. MfccComputer_new externals_example MfccOpts_default = Inr c \<and>
       length (lifter_coeffs' c) = 13 \<and>
       lifter_coeffs' c ! 0 = Finite 1 \<and>
       lifter_coeffs' c ! 11 = Finite (1 + 0.5 * 22 * sin (pi * 11 / 22)) \<and>
       lifter_coeffs' c ! 11 = Finite 12"
    by auto
next
  obtain c where c: "MfccComputer_new externals_example (MfccOpts_new 13 True PInf) = Inr c"
    using MfccOpts_new_built [of True PInf] by auto
  have "lifter_coeffs' c ! 0 = NaN"
    using lifter_coefficients [OF c, of 0] by (simp add: MfccOpts_new_def PI_def)
  with c show "\<exists>c. MfccComputer_new externals_example (MfccOpts_new 13 True PInf) = Inr c \<and>
       cepstral_lifter (MfccOpts_new 13 True PInf) = PInf \<and>
       lifter_coeffs' c ! 0 = NaN"
    by (auto simp: MfccOpts_new_def)
qed

text \<open>
  The claim as stated fails. The lifter \<open>+\<infinity>\<close> is positive and the options pass
  \<open>Check\<close>, which does not look at the lifter; the computer is built, and its
  coefficient at index 0 is \<open>0.5 * \<infinity> * sin 0 + 1\<close>, which is not a number and
  not 1.
\<close>

theorem lifter_coefficients_counterexample:
  "MfccOpts_Check (MfccOpts_new 13 True PInf) = Inr ()
   \<and> Float32_less (Finite 0) (cepstral_lifter (MfccOpts_new 13 True PInf))
   \<and> lifter_coeff (cepstral_lifter (MfccOpts_new 13 True PInf)) 0 = NaN
   \<and> (\<exists>c. MfccComputer_new externals_example (MfccOpts_new 13 True PInf) = Inr c \<and>
          lifter_coeffs' c ! 0 = NaN \<and> lifter_coeffs' c ! 0 \<noteq> Finite 1)"
proof -
  obtain c where c: "MfccComputer_new externals_example (MfccOpts_new 13 True PInf) = Inr c"
    using MfccOpts_new_built [of True PInf] by auto
  have "lifter_coeffs' c ! 0 = lifter_coeff (cepstral_lifter (MfccOpts_new 13 True PInf)) 0"
    using MfccComputer_new_lifter(1) [OF c, of 0] by (simp add: MfccOpts_new_def)
  then have "lifter_coeffs' c ! 0 = NaN"
    by (simp add: MfccOpts_new_def lifter_coeff_infinite_lifter)
  with c have "\<exists>c. MfccComputer_new externals_example (MfccOpts_new 13 True PInf) = Inr c \<and>
          lifter_coeffs' c ! 0 = NaN \<and> lifter_coeffs' c ! 0 \<noteq> Finite 1"
    by auto
  then show ?thesis
    using MfccOpts_new_Check [of True PInf]
    by (simp add: MfccOpts_new_def lifter_coeff_infinite_lifter)
qed

text \<open>
  C9. \<open>Check\<close> of an \<open>MfccOpts\<close> does not depend on \<open>cepstral_lifter\<close>. With
  \<open>cepstral_lifter = 0\<close> the quotient \<open>PI * i / cepstral_lifter\<close> is a division by zero
  and is not finite, and every liftering coefficient of the constructed computer is
  \<open>NaN\<close>.
\<close>

theorem zero_lifter_not_validated:
  "MfccOpts_Check (m\<lparr>cepstral_lifter := l\<rparr>) = MfccOpts_Check m
   \<and> (MfccComputer_new X m = Inr c \<and> cepstral_lifter m = Finite 0 \<and>
        k < nat (sint (num_ceps m)) \<longrightarrow>
        lifter_coeffs' c ! k = NaN \<and> \<not> is_finite (lifter_coeffs' c ! k))
   \<and> \<not> is_finite (Float32_div (Float32_mult PI (Float32_of_Int32 i)) (Finite 0))"
proof (intro conjI impI)
  show "MfccOpts_Check (m\<lparr>cepstral_lifter := l\<rparr>) = MfccOpts_Check m"
    by (simp add: MfccOpts_Check_def split: sum.splits)
  show "\<not> is_finite (Float32_div (Float32_mult PI (Float32_of_Int32 i)) (Finite 0))"
    by (simp add: PI_def Float32_of_Int32_def)
  assume a: "MfccComputer_new X m = Inr c \<and> cepstral_lifter m = Finite 0 \<and>
        k < nat (sint (num_ceps m))"
  then have "lifter_coeffs' c ! k = lifter_coeff (Finite 0) (word_of_nat k)"
    using MfccComputer_new_lifter(1) [of X m c k] by simp
  then show "lifter_coeffs' c ! k = NaN" by (simp add: lifter_coeff_zero_lifter)
  then show "\<not> is_finite (lifter_coeffs' c ! k)" by simp
qed

text \<open>
  Default Mfcc options with the lifter set to 0 pass \<open>Check\<close>, the computer is
  built, and its first and last liftering coefficients are \<open>NaN\<close>.
\<close>

theorem zero_lifter_not_validated_witness:
  "MfccOpts_Check (MfccOpts_new 13 True (Finite 0)) = Inr ()
   \<and> (\<exists>c. MfccComputer_new externals_example (MfccOpts_new 13 True (Finite 0)) = Inr c \<and>
          lifter_coeffs' c ! 0 = NaN \<and> lifter_coeffs' c ! 12 = NaN)"
proof -
  obtain c where c: "MfccComputer_new externals_example (MfccOpts_new 13 True (Finite 0)) = Inr c"
    using MfccOpts_new_built [of True "Finite 0"] by auto
  have "lifter_coeffs' c ! 0 = NaN \<and> lifter_coeffs' c ! 12 = NaN"
    using zero_lifter_not_validated [where m = "MfccOpts_new 13 True (Finite 0)"
        and X = externals_example and c = c and k = 0]
      zero_lifter_not_validated [where m = "MfccOpts_new 13 True (Finite 0)"
        and X = externals_example and c = c and k = 12] c
    by (simp add: MfccOpts_new_def)
  with c MfccOpts_new_Check [of True "Finite 0"] show ?thesis by auto
qed

subsection \<open>Frame on a signal shorter than a frame\<close>

lemma Frame_loop_done:
  "\<not> t <s num_frames \<Longrightarrow> Frame_loop FFI signal num_samps stride num_frames t st = Inr st"
  by (subst Frame_loop.simps) simp

lemma Frame_loop_step:
  "t <s num_frames \<Longrightarrow>
   Frame_loop FFI signal num_samps stride num_frames t st =
     (case FFI (fst st) signal num_samps t (snd st) (stride * t) of
        Inl e \<Rightarrow> Inl e
      | Inr st' \<Rightarrow> Frame_loop FFI signal num_samps stride num_frames (t + 1) st')"
  by (subst Frame_loop.simps) simp

lemma Frame_no_frames:
  assumes "FrameSplitter_NumFrames sp num_samps = Inr (num_frames, warnings)"
    and "sint num_frames \<le> 0"
    and "frame_length (frame_opts' sp) \<le>s stride"
  shows "FrameSplitter_Frame FFI sp signal num_samps frames stride =
           Inr (num_frames, sp, frames, warnings)"
  using assms
  by (simp add: FrameSplitter_Frame_def ASSERT_def Frame_loop_done word_sless_alt)

text \<open>
  Whenever \<open>NumFrames\<close> returns a count that is not positive and the stride is
  at least the frame length, \<open>Frame\<close> returns that count with the warnings of
  \<open>NumFrames\<close> and leaves the splitter and the destination as they were, whatever
  \<open>FrameForIndex\<close> does.
\<close>

theorem Frame_without_frames:
  "FrameSplitter_NumFrames sp num_samps = Inr (num_frames, warnings) \<Longrightarrow>
   sint num_frames \<le> 0 \<Longrightarrow>
   frame_length (frame_opts' sp) \<le>s stride \<Longrightarrow>
   FrameSplitter_Frame FFI sp signal num_samps frames stride =
     Inr (num_frames, sp, frames, warnings)"
  by (rule Frame_no_frames)

text \<open>
  The default frame options and 200 samples: the count is \<open>(200 - 400) / 160 + 1 = 0\<close>,
  the warning is logged and nothing is written.
\<close>

theorem Frame_without_frames_witness:
  "FrameSplitter_Frame FrameForIndex_spec
     \<lparr>frame_opts' = FrameOpts_default, window' = Some (Float32_array 400),
      online_use' = Float32_array 800, prev_discard_size' = 0\<rparr>
     (replicate 200 (Finite 1)) 200 (Float32_array 400) 400 =
   Inr (0, \<lparr>frame_opts' = FrameOpts_default, window' = Some (Float32_array 400),
            online_use' = Float32_array 800, prev_discard_size' = 0\<rparr>,
        Float32_array 400,
        [LOG_WARN ''Number of samples is less than frame length, '' 200 '' vs '' 400])"
proof -
  let ?sp = "\<lparr>frame_opts' = FrameOpts_default, window' = Some (Float32_array 400),
      online_use' = Float32_array 800, prev_discard_size' = 0\<rparr>"
  have n: "FrameSplitter_NumFrames ?sp 200 =
      Inr (0, [LOG_WARN ''Number of samples is less than frame length, '' 200 '' vs '' 400])"
    by (simp add: FrameSplitter_NumFrames_def FrameOpts_default_def FrameOpts_new_def
        Int32_div_numeral)
  have l: "frame_length (frame_opts' ?sp) \<le>s 400"
    by (simp add: FrameOpts_default_def FrameOpts_new_def)
  show ?thesis
    using Frame_without_frames [OF n _ l] by simp
qed

text \<open>
  C10. The claim takes fewer samples than a frame to give a count that is not
  positive. With the default frame options, no carried tail and 300 samples the
  count is 1 (the division truncates), so \<open>Frame\<close> calls \<open>FrameForIndex\<close> for
  frame 0 on the destination, and returns 1 with whatever that call left in the
  destination. This holds for every behaviour \<open>FFI\<close> of \<open>FrameForIndex\<close>.
\<close>

theorem Frame_short_signal:
  "FrameSplitter_Frame FFI
     \<lparr>frame_opts' = FrameOpts_default, window' = w, online_use' = u, prev_discard_size' = 0\<rparr>
     signal 300 frames 400 =
   (case FFI \<lparr>frame_opts' = FrameOpts_default, window' = w, online_use' = u,
              prev_discard_size' = 0\<rparr> signal 300 0 frames 0 of
      Inl e \<Rightarrow> Inl e
    | Inr (sp', frames') \<Rightarrow> Inr (1, sp', frames', []))"
proof -
  let ?sp = "\<lparr>frame_opts' = FrameOpts_default, window' = w, online_use' = u,
              prev_discard_size' = 0\<rparr>"
  have n: "FrameSplitter_NumFrames ?sp 300 = Inr (1, [])"
    by (simp add: FrameSplitter_NumFrames_def FrameOpts_default_def FrameOpts_new_def
        Int32_div_numeral)
  have a: "frame_length (frame_opts' ?sp) \<le>s 400"
    by (simp add: FrameOpts_default_def FrameOpts_new_def)
  have l: "Frame_loop FFI signal 300 400 1 0 (?sp, frames) =
     (case FFI ?sp signal 300 0 frames 0 of Inl e \<Rightarrow> Inl e | Inr st' \<Rightarrow> Inr st')"
    by (simp add: Frame_loop_step Frame_loop_done word_sless_alt split: sum.splits)
  show ?thesis
    using n a l by (simp add: FrameSplitter_Frame_def ASSERT_def split: sum.splits prod.splits)
qed

subsection \<open>Two incremental calls against one batch call\<close>

lemma sint_eq_self: "- (2 ^ 31) \<le> k \<Longrightarrow> k < 2 ^ 31 \<Longrightarrow> sint (word_of_int k :: Int32) = k"
  by (simp add: signed_of_int signed_take_bit_int_eq_self)

lemma sint_add_exact:
  fixes a b :: Int32
  shows "- (2 ^ 31) \<le> sint a + sint b \<Longrightarrow> sint a + sint b < 2 ^ 31 \<Longrightarrow> sint (a + b) = sint a + sint b"
  by (simp add: sint_word_ariths signed_take_bit_int_eq_self)

lemma sint_sub_exact:
  fixes a b :: Int32
  shows "- (2 ^ 31) \<le> sint a - sint b \<Longrightarrow> sint a - sint b < 2 ^ 31 \<Longrightarrow> sint (a - b) = sint a - sint b"
  by (simp add: sint_word_ariths signed_take_bit_int_eq_self)

lemma sint_mult_exact:
  fixes a b :: Int32
  shows "- (2 ^ 31) \<le> sint a * sint b \<Longrightarrow> sint a * sint b < 2 ^ 31 \<Longrightarrow> sint (a * b) = sint a * sint b"
  by (simp add: sint_word_ariths signed_take_bit_int_eq_self)

lemma sdiv_nonneg: "0 \<le> a \<Longrightarrow> 0 < b \<Longrightarrow> (a :: int) sdiv b = a div b"
  by (simp add: signed_divide_int_def sgn_if)

lemma word_of_sint_nat:
  assumes "sint (k :: Int32) = int K" shows "k = word_of_nat K"
proof -
  have "k = word_of_int (sint k)" by simp
  also have "\<dots> = word_of_int (int K)" using assms by simp
  also have "\<dots> = word_of_nat K" by simp
  finally show ?thesis .
qed

text \<open>
  With a positive frame shift that is at most the frame length, and at least a
  frame of samples at hand, the truncating division of \<open>NumFrames\<close> is the floor:
  the count is positive and nothing is logged.
\<close>

lemma NumFrames_enough:
  assumes S: "0 < sint (frame_shift (frame_opts' sp))"
    and SL: "sint (frame_shift (frame_opts' sp)) \<le> sint (frame_length (frame_opts' sp))"
    and enough: "sint (frame_length (frame_opts' sp)) \<le> sint (prev_discard_size' sp) + sint num_samps"
    and small: "sint (prev_discard_size' sp) + sint num_samps < 2 ^ 31"
    and p: "0 \<le> sint (prev_discard_size' sp)" and n: "0 \<le> sint num_samps"
  shows "\<exists>k. FrameSplitter_NumFrames sp num_samps = Inr (k, []) \<and>
           sint k = (sint num_samps + sint (prev_discard_size' sp)
                      - sint (frame_length (frame_opts' sp)))
                    div sint (frame_shift (frame_opts' sp)) + 1 \<and> 1 \<le> sint k"
proof -
  let ?S = "frame_shift (frame_opts' sp)" and ?L = "frame_length (frame_opts' sp)"
  let ?p = "prev_discard_size' sp"
  have s1: "sint (num_samps + ?p) = sint num_samps + sint ?p"
    using small p n sint_ge [of num_samps] by (intro sint_add_exact) auto
  have s2: "sint (num_samps + ?p - ?L) = sint num_samps + sint ?p - sint ?L"
    using small p n S SL enough s1 by (subst sint_sub_exact) auto
  let ?q = "(sint num_samps + sint ?p - sint ?L) div sint ?S"
  have q0: "0 \<le> ?q" using enough S by (simp add: pos_imp_zdiv_nonneg_iff)
  have qle: "?q \<le> sint num_samps + sint ?p - sint ?L"
    using zdiv_mono2 [of "sint num_samps + sint ?p - sint ?L" 1 "sint ?S"] enough S by simp
  have d: "Int32_div (num_samps + ?p - ?L) ?S = word_of_int ?q"
    using s2 enough S by (simp add: Int32_div_def sdiv_nonneg)
  have sq: "sint (word_of_int ?q :: Int32) = ?q"
    using q0 qle small S SL by (intro sint_eq_self) auto
  have s3: "sint (word_of_int ?q + 1 :: Int32) = ?q + 1"
    using sq q0 qle small S SL by (subst sint_add_exact) auto
  have nz: "?S \<noteq> 0" using S by auto
  have n1: "?S \<noteq> - 1" using S by auto
  have k0: "word_of_int ?q + 1 \<noteq> (0 :: Int32)"
    using s3 q0 by (metis add_nonneg_eq_0_iff signed_0 zero_neq_one zero_le_one)
  show ?thesis
    using d s3 q0 nz n1 k0
    by (intro exI [of _ "word_of_int ?q + 1"]) (simp add: FrameSplitter_NumFrames_def Let_def)
qed

text \<open>
  For a splitter with \<open>0 < frame_shift \<le> frame_length\<close> and at least a frame of
  samples at hand, carried tail included, \<open>NumFrames\<close> returns
  \<open>floor ((num_samps + carried_tail_size - frame_length) / frame_shift) + 1\<close>, which is
  at least 1, and logs nothing.
\<close>

theorem NumFrames_floor_formula:
  "0 < sint (frame_shift (frame_opts' sp)) \<Longrightarrow>
   sint (frame_shift (frame_opts' sp)) \<le> sint (frame_length (frame_opts' sp)) \<Longrightarrow>
   0 \<le> sint (prev_discard_size' sp) \<Longrightarrow> 0 \<le> sint num_samps \<Longrightarrow>
   sint (frame_length (frame_opts' sp)) \<le> sint (prev_discard_size' sp) + sint num_samps \<Longrightarrow>
   sint (prev_discard_size' sp) + sint num_samps < 2 ^ 31 \<Longrightarrow>
   \<exists>k. FrameSplitter_NumFrames sp num_samps = Inr (k, []) \<and>
       sint k = (sint num_samps + sint (prev_discard_size' sp)
                  - sint (frame_length (frame_opts' sp)))
                div sint (frame_shift (frame_opts' sp)) + 1 \<and>
       1 \<le> sint k"
  by (rule NumFrames_enough)

text \<open>
  The default frame options and 1000 samples: 4 frames.
\<close>

theorem NumFrames_floor_formula_witness:
  "\<exists>k. FrameSplitter_NumFrames
         \<lparr>frame_opts' = FrameOpts_default, window' = Some (Float32_array 400),
          online_use' = Float32_array 800, prev_discard_size' = 0\<rparr> 1000 = Inr (k, []) \<and>
       sint k = 4"
  using NumFrames_floor_formula [of
      "\<lparr>frame_opts' = FrameOpts_default, window' = Some (Float32_array 400),
        online_use' = Float32_array 800, prev_discard_size' = 0\<rparr>" 1000]
  by (auto simp: FrameOpts_default_def FrameOpts_new_def)

lemma length_write_at: "off + length xs \<le> length buf \<Longrightarrow> length (write_at buf off xs) = length buf"
  by (simp add: write_at_def)

lemma take_write_at: "off + length xs \<le> length buf \<Longrightarrow> m \<le> off \<Longrightarrow> take m (write_at buf off xs) = take m buf"
  by (simp add: write_at_def)

lemma read_write_at:
  "off + length xs \<le> length buf \<Longrightarrow> take (length xs) (drop off (write_at buf off xs)) = xs"
  by (simp add: write_at_def)

lemma take_write_at_0: "length xs \<le> length buf \<Longrightarrow> take (length xs) (write_at buf 0 xs) = xs"
  by (simp add: write_at_def)

lemma length_stream_of:
  "nat (sint (prev_discard_size' sp)) \<le> length (online_use' sp) \<Longrightarrow>
   nat (sint num_samps) \<le> length signal \<Longrightarrow>
   length (stream_of sp signal num_samps) = nat (sint (prev_discard_size' sp)) + nat (sint num_samps)"
  by (simp add: stream_of_def)

lemma frame_at_take:
  "t * st + len \<le> b \<Longrightarrow> frame_at (take b buf) st len t = frame_at buf st len t"
  by (simp add: frame_at_def drop_take min_def)

lemma frame_at_write_at:
  "t * st + length xs \<le> length buf \<Longrightarrow> frame_at (write_at buf (t * st) xs) st (length xs) t = xs"
  by (simp add: frame_at_def read_write_at)

lemma length_frame_at:
  "t * st + len \<le> length buf \<Longrightarrow> length (frame_at buf st len t) = len"
  by (simp add: frame_at_def)

lemma frame_at_append:
  "t * S + L \<le> length xs \<Longrightarrow> frame_at (xs @ ys) S L t = frame_at xs S L t"
  by (simp add: frame_at_def)

lemma frame_at_drop: "frame_at (drop (j * S) zs) S L t = frame_at zs S L (j + t)"
  by (simp add: frame_at_def algebra_simps)

lemma count_splits:
  fixes a S K1 :: nat
  assumes "0 < S" "K1 * S \<le> a"
  shows "a div S + 1 = K1 + ((a - K1 * S) div S + 1)"
proof -
  obtain b where a: "a = b + K1 * S" using assms(2) by (metis le_add_diff_inverse2)
  show ?thesis using assms(1) unfolding a by simp
qed

lemma carried_prev:
  "length tail < 2 ^ 31 \<Longrightarrow>
   sint (prev_discard_size'
           (sp\<lparr>online_use' := buf,
               prev_discard_size' := word_of_nat (length tail)\<rparr>)) = int (length tail)"
  by (simp add: sint_word_of_nat_small)

lemma carried_stream:
  assumes "length tail < 2 ^ 31" "length tail \<le> length buf" "sint n = int (length ys)"
  shows "stream_of (sp\<lparr>online_use' := write_at buf 0 tail,
                        prev_discard_size' := word_of_nat (length tail)\<rparr>) ys n = tail @ ys"
  using assms by (simp add: stream_of_def sint_word_of_nat_small take_write_at_0)

lemma carried_tail:
  assumes "length tail < 2 ^ 31" "length tail \<le> length buf"
  shows "take (nat (sint (prev_discard_size'
                 (sp\<lparr>online_use' := write_at buf 0 tail,
                     prev_discard_size' := word_of_nat (length tail)\<rparr>))))
           (online_use' (sp\<lparr>online_use' := write_at buf 0 tail,
                            prev_discard_size' := word_of_nat (length tail)\<rparr>)) = tail"
  using assms by (simp add: sint_word_of_nat_small take_write_at_0)

text \<open>
  One call of the modelled \<open>FrameForIndex\<close> for a frame that the stream holds, the
  loop of \<open>Frame\<close> over the frames that \<open>NumFrames\<close> counts, and one call of
  \<open>Frame\<close>: every counted frame is in the destination and the samples from
  \<open>K * frame_shift\<close> on are carried.
\<close>

lemma FrameForIndex_spec_frame:
  assumes nf: "FrameSplitter_NumFrames sp num_samps = Inr (k, ws)"
    and idx: "0 \<le> sint index" "0 \<le> sint off"
    and bufs: "nat (sint (prev_discard_size' sp)) \<le> length (online_use' sp)"
      "nat (sint num_samps) \<le> length signal"
    and holds: "nat (sint index) * nat (sint (frame_shift (frame_opts' sp)))
                + nat (sint (frame_length (frame_opts' sp)))
                \<le> length (stream_of sp signal num_samps)"
    and room: "nat (sint off) + nat (sint (frame_length (frame_opts' sp))) \<le> length dest"
    and tail: "length (drop (nat (sint k) * nat (sint (frame_shift (frame_opts' sp))))
                   (stream_of sp signal num_samps)) \<le> length (online_use' sp)"
  shows "FrameForIndex_spec sp signal num_samps index dest off =
     Inr (if index + 1 = k
          then sp\<lparr>online_use' :=
                    write_at (online_use' sp) 0
                      (drop (nat (sint k) * nat (sint (frame_shift (frame_opts' sp))))
                         (stream_of sp signal num_samps)),
                  prev_discard_size' :=
                    word_of_nat (length
                      (drop (nat (sint k) * nat (sint (frame_shift (frame_opts' sp))))
                         (stream_of sp signal num_samps)))\<rparr>
          else sp,
          write_at dest (nat (sint off))
            (frame_at (stream_of sp signal num_samps)
               (nat (sint (frame_shift (frame_opts' sp))))
               (nat (sint (frame_length (frame_opts' sp)))) (nat (sint index))))"
  using assms
  by (simp add: FrameForIndex_spec_def Let_def frame_at_def word_sless_alt not_less)

lemma FrameForIndex_spec_frame_nat:
  assumes nf: "FrameSplitter_NumFrames sp num_samps = Inr (k, ws)"
    and idx: "sint index = int tt" "sint off = int oo" "sint k = int K"
    and L: "L = nat (sint (frame_length (frame_opts' sp)))"
    and S: "S = nat (sint (frame_shift (frame_opts' sp)))"
    and bufs: "nat (sint (prev_discard_size' sp)) \<le> length (online_use' sp)"
      "nat (sint num_samps) \<le> length signal"
    and holds: "tt * S + L \<le> length (stream_of sp signal num_samps)"
    and room: "oo + L \<le> length dest"
    and tail: "length (drop (K * S) (stream_of sp signal num_samps)) \<le> length (online_use' sp)"
  shows "FrameForIndex_spec sp signal num_samps index dest off =
     Inr (if index + 1 = k
          then sp\<lparr>online_use' :=
                    write_at (online_use' sp) 0 (drop (K * S) (stream_of sp signal num_samps)),
                  prev_discard_size' :=
                    word_of_nat (length (drop (K * S) (stream_of sp signal num_samps)))\<rparr>
          else sp,
          write_at dest oo (frame_at (stream_of sp signal num_samps) S L tt))"
proof -
  have "FrameForIndex_spec sp signal num_samps index dest off =
     Inr (if index + 1 = k
          then sp\<lparr>online_use' :=
                    write_at (online_use' sp) 0
                      (drop (nat (sint k) * nat (sint (frame_shift (frame_opts' sp))))
                         (stream_of sp signal num_samps)),
                  prev_discard_size' :=
                    word_of_nat (length
                      (drop (nat (sint k) * nat (sint (frame_shift (frame_opts' sp))))
                         (stream_of sp signal num_samps)))\<rparr>
          else sp,
          write_at dest (nat (sint off))
            (frame_at (stream_of sp signal num_samps)
               (nat (sint (frame_shift (frame_opts' sp))))
               (nat (sint (frame_length (frame_opts' sp)))) (nat (sint index))))"
  proof (rule FrameForIndex_spec_frame [OF nf])
    show "0 \<le> sint index" "0 \<le> sint off" using idx by simp_all
    show "nat (sint (prev_discard_size' sp)) \<le> length (online_use' sp)"
      "nat (sint num_samps) \<le> length signal" by (fact bufs)+
    show "nat (sint index) * nat (sint (frame_shift (frame_opts' sp)))
                + nat (sint (frame_length (frame_opts' sp)))
                \<le> length (stream_of sp signal num_samps)"
      using holds idx L S by simp
    show "nat (sint off) + nat (sint (frame_length (frame_opts' sp))) \<le> length dest"
      using room idx L by simp
    show "length (drop (nat (sint k) * nat (sint (frame_shift (frame_opts' sp))))
                   (stream_of sp signal num_samps)) \<le> length (online_use' sp)"
      using tail idx S by simp
  qed
  then show ?thesis using idx L S by simp
qed

lemma Frame_loop_spec:
  assumes nf: "FrameSplitter_NumFrames sp num_samps = Inr (k, ws)"
    and K: "sint k = int K"
    and st: "sint stride = int st" "L \<le> st" "st * K < 2 ^ 31"
    and L: "L = nat (sint (frame_length (frame_opts' sp)))"
    and S: "S = nat (sint (frame_shift (frame_opts' sp)))"
    and bufs: "nat (sint (prev_discard_size' sp)) \<le> length (online_use' sp)"
      "nat (sint num_samps) \<le> length signal"
    and holds: "(K - 1) * S + L \<le> length (stream_of sp signal num_samps)"
    and tail: "length (drop (K * S) (stream_of sp signal num_samps)) \<le> length (online_use' sp)"
    and K31: "K < 2 ^ 31"
  shows "tt < K \<Longrightarrow> (K - 1) * st + L \<le> length dest \<Longrightarrow>
     \<exists>dest'. Frame_loop FrameForIndex_spec signal num_samps stride k (word_of_nat tt) (sp, dest) =
        Inr (sp\<lparr>online_use' :=
                  write_at (online_use' sp) 0 (drop (K * S) (stream_of sp signal num_samps)),
                prev_discard_size' :=
                  word_of_nat (length (drop (K * S) (stream_of sp signal num_samps)))\<rparr>,
             dest') \<and>
        length dest' = length dest \<and>
        take (tt * st) dest' = take (tt * st) dest \<and>
        (\<forall>t'. tt \<le> t' \<and> t' < K \<longrightarrow>
           frame_at dest' st L t' = frame_at (stream_of sp signal num_samps) S L t')"
proof (induction "K - 1 - tt" arbitrary: tt dest)
  case 0
  let ?stream = "stream_of sp signal num_samps"
  let ?t = "word_of_nat tt :: Int32"
  from 0 have tt: "K = Suc tt" by auto
  have stt: "sint ?t = int tt" using 0 K31 by (intro sint_word_of_nat_small) simp
  have less: "?t <s k" using stt K 0 by (simp add: word_sless_alt)
  have last: "?t + 1 = k" using word_of_sint_nat [OF K] tt by simp
  have "st * tt \<le> st * K" using tt by simp
  then have off31: "int st * int tt < 2 ^ 31" using st(3)
    by (metis (mono_tags, opaque_lifting) le_less_trans of_nat_less_numeral_power_cancel_iff of_nat_mult)
  have off0: "- (2 ^ 31) \<le> int st * int tt"
    by (rule order_trans [of _ 0]) simp_all
  have soff: "sint (stride * ?t) = int (st * tt)"
    using stt st(1) off31 off0 by (subst sint_mult_exact) auto
  have room: "tt * st + L \<le> length dest" using 0(3) tt by simp
  have h: "tt * S + L \<le> length ?stream" using holds tt by simp
  have ffi: "FrameForIndex_spec sp signal num_samps ?t dest (stride * ?t) =
     Inr (sp\<lparr>online_use' := write_at (online_use' sp) 0 (drop (K * S) ?stream),
             prev_discard_size' := word_of_nat (length (drop (K * S) ?stream))\<rparr>,
          write_at dest (tt * st) (frame_at ?stream S L tt))"
    using FrameForIndex_spec_frame_nat [OF nf stt soff K L S bufs h _ tail, of dest] room last
    by (simp add: mult.commute)
  have stop: "\<not> ?t + 1 <s k" using last by simp
  let ?dest' = "write_at dest (tt * st) (frame_at ?stream S L tt)"
  have len: "length (frame_at ?stream S L tt) = L" using h by (rule length_frame_at)
  have "Frame_loop FrameForIndex_spec signal num_samps stride k ?t (sp, dest) =
      Inr (sp\<lparr>online_use' := write_at (online_use' sp) 0 (drop (K * S) ?stream),
             prev_discard_size' := word_of_nat (length (drop (K * S) ?stream))\<rparr>, ?dest')"
    using less ffi stop by (simp add: Frame_loop_step Frame_loop_done)
  moreover have "length ?dest' = length dest"
    using room len by (simp add: length_write_at)
  moreover have "take (tt * st) ?dest' = take (tt * st) dest"
    using room len by (simp add: take_write_at)
  moreover have "frame_at ?dest' st L t' = frame_at ?stream S L t'" if "tt \<le> t' \<and> t' < K" for t'
  proof -
    from that tt have "t' = tt" by simp
    then show ?thesis using frame_at_write_at [of tt st "frame_at ?stream S L tt" dest] room len
      by simp
  qed
  ultimately show ?case by blast
next
  case (Suc j)
  let ?stream = "stream_of sp signal num_samps"
  let ?t = "word_of_nat tt :: Int32"
  from Suc have tt: "Suc tt < K" "j = K - 1 - Suc tt" by auto
  have stt: "sint ?t = int tt" using tt K31 by (intro sint_word_of_nat_small) simp
  have less: "?t <s k" using stt K tt by (simp add: word_sless_alt)
  have stt1: "sint (?t + 1) = int tt + 1" using less sint_plus_one stt by simp
  have notlast: "?t + 1 \<noteq> k" using stt1 K tt by auto
  have "st * tt \<le> st * K" using tt by simp
  then have off31: "int st * int tt < 2 ^ 31" using st(3)
    by (metis (mono_tags, opaque_lifting) le_less_trans of_nat_less_numeral_power_cancel_iff of_nat_mult)
  have off0: "- (2 ^ 31) \<le> int st * int tt"
    by (rule order_trans [of _ 0]) simp_all
  have soff: "sint (stride * ?t) = int (st * tt)"
    using stt st(1) off31 off0 by (subst sint_mult_exact) auto
  have "Suc tt * st \<le> (K - 1) * st" using tt by (intro mult_le_mono1) simp
  then have room1: "Suc tt * st + L \<le> length dest" using Suc.prems(2) by linarith
  then have room: "tt * st + L \<le> length dest" by simp
  have "tt * S \<le> (K - 1) * S" using tt by (intro mult_le_mono1) simp
  then have h: "tt * S + L \<le> length ?stream" using holds by linarith
  let ?dest1 = "write_at dest (tt * st) (frame_at ?stream S L tt)"
  have ffi: "FrameForIndex_spec sp signal num_samps ?t dest (stride * ?t) = Inr (sp, ?dest1)"
    using FrameForIndex_spec_frame_nat [OF nf stt soff K L S bufs h _ tail, of dest] room notlast
    by (simp add: mult.commute)
  have len: "length (frame_at ?stream S L tt) = L" using h by (rule length_frame_at)
  have len1: "length ?dest1 = length dest" using room len by (simp add: length_write_at)
  have next_t: "?t + 1 = word_of_nat (Suc tt)" by simp
  obtain dest' where
    loop: "Frame_loop FrameForIndex_spec signal num_samps stride k (word_of_nat (Suc tt)) (sp, ?dest1) =
        Inr (sp\<lparr>online_use' := write_at (online_use' sp) 0 (drop (K * S) ?stream),
                prev_discard_size' := word_of_nat (length (drop (K * S) ?stream))\<rparr>, dest')"
    and len': "length dest' = length ?dest1"
    and pre: "take (Suc tt * st) dest' = take (Suc tt * st) ?dest1"
    and frames: "\<forall>t'. Suc tt \<le> t' \<and> t' < K \<longrightarrow> frame_at dest' st L t' = frame_at ?stream S L t'"
    using Suc.hyps(1) [OF tt(2) tt(1), of ?dest1] Suc.prems(2) len1 by auto
  have "Frame_loop FrameForIndex_spec signal num_samps stride k ?t (sp, dest) =
        Frame_loop FrameForIndex_spec signal num_samps stride k (?t + 1) (sp, ?dest1)"
    using less ffi by (simp add: Frame_loop_step)
  then have "Frame_loop FrameForIndex_spec signal num_samps stride k ?t (sp, dest) =
        Inr (sp\<lparr>online_use' := write_at (online_use' sp) 0 (drop (K * S) ?stream),
                prev_discard_size' := word_of_nat (length (drop (K * S) ?stream))\<rparr>, dest')"
    using loop [folded next_t] by (simp only:)
  moreover have "length dest' = length dest" using len' len1 by simp
  moreover have pre_tt: "take (tt * st) dest' = take (tt * st) dest"
  proof -
    have "take (tt * st) dest' = take (tt * st) (take (Suc tt * st) dest')" by (simp add: min_def)
    also have "\<dots> = take (tt * st) (take (Suc tt * st) ?dest1)" using pre by simp
    also have "\<dots> = take (tt * st) ?dest1" by (simp add: min_def)
    also have "\<dots> = take (tt * st) dest" using room len by (simp add: take_write_at)
    finally show ?thesis .
  qed
  moreover have "frame_at dest' st L t' = frame_at ?stream S L t'" if t': "tt \<le> t' \<and> t' < K" for t'
  proof (cases "t' = tt")
    case False
    with t' frames show ?thesis by simp
  next
    case True
    have inside: "tt * st + L \<le> Suc tt * st" using st(2) by simp
    have "frame_at dest' st L tt = frame_at (take (Suc tt * st) dest') st L tt"
      using inside by (simp add: frame_at_take)
    also have "\<dots> = frame_at (take (Suc tt * st) ?dest1) st L tt" using pre by simp
    also have "\<dots> = frame_at ?dest1 st L tt" using inside by (simp add: frame_at_take)
    also have "\<dots> = frame_at ?stream S L tt"
      using frame_at_write_at [of tt st "frame_at ?stream S L tt" dest] room len by simp
    finally show ?thesis using True by simp
  qed
  ultimately show ?case by blast
qed

lemma Frame_spec_call:
  assumes S: "S = nat (sint (frame_shift (frame_opts' sp)))" "0 < S"
    and L: "L = nat (sint (frame_length (frame_opts' sp)))" "S \<le> L"
    and p: "sint (prev_discard_size' sp) = int p" and n: "sint num_samps = int n"
    and bufs: "p \<le> length (online_use' sp)" "n \<le> length signal" "L \<le> length (online_use' sp)"
    and enough: "L \<le> p + n" and small: "p + n < 2 ^ 31"
    and K: "K = (p + n - L) div S + 1"
    and st: "sint stride = int st" "L \<le> st" "st * K < 2 ^ 31"
    and room: "(K - 1) * st + L \<le> length dest"
  shows "\<exists>k dest'.
     FrameSplitter_Frame FrameForIndex_spec sp signal num_samps dest stride =
       Inr (k, sp\<lparr>online_use' :=
                    write_at (online_use' sp) 0 (drop (K * S) (stream_of sp signal num_samps)),
                  prev_discard_size' :=
                    word_of_nat (length (drop (K * S) (stream_of sp signal num_samps)))\<rparr>,
            dest', []) \<and>
     sint k = int K \<and> length dest' = length dest \<and>
     (\<forall>t < K. frame_at dest' st L t = frame_at (stream_of sp signal num_samps) S L t)"
proof -
  let ?stream = "stream_of sp signal num_samps"
  have "0 < sint (frame_shift (frame_opts' sp))" using S(2) unfolding S(1) by simp
  then have sS: "sint (frame_shift (frame_opts' sp)) = int S" unfolding S(1) by simp
  have "0 < L" using S(2) L(2) by linarith
  then have "0 < sint (frame_length (frame_opts' sp))" unfolding L(1) by simp
  then have sL: "sint (frame_length (frame_opts' sp)) = int L" unfolding L(1) by simp
  obtain k where nf: "FrameSplitter_NumFrames sp num_samps = Inr (k, [])"
    and sk: "sint k = (int n + int p - int L) div int S + 1"
    using NumFrames_enough [of sp num_samps] sS sL p n S(2) L(2) enough small
    by (auto simp: add.commute)
  have "(int n + int p - int L) div int S = int ((p + n - L) div S)"
    using enough by (simp add: zdiv_int of_nat_diff add.commute)
  then have kK: "sint k = int K" using sk K by simp
  have len: "length ?stream = p + n"
    using length_stream_of [where sp = sp and signal = signal and num_samps = num_samps] p n bufs by simp
  have "(p + n - L) div S * S \<le> p + n - L" by simp
  then have "(p + n - L) div S * S + L \<le> p + n" using enough by linarith
  then have holds: "(K - 1) * S + L \<le> length ?stream" using K len by simp
  have "p + n - L < S + S * ((p + n - L) div S)"
    using S(2) by (rule dividend_less_times_div)
  also have "\<dots> = K * S" unfolding K by (simp add: algebra_simps)
  finally have "p + n - L < K * S" .
  then have tail: "length (drop (K * S) ?stream) \<le> length (online_use' sp)"
    using len bufs(3) enough by simp
  have "K \<le> p + n - L + 1" using K by (simp add: div_le_dividend)
  then have K31: "K < 2 ^ 31" using small enough S L by linarith
  have K0: "0 < K" using K by simp
  have assert: "frame_length (frame_opts' sp) \<le>s stride" using sL st by (simp add: word_sle_eq)
  have bufs': "nat (sint (prev_discard_size' sp)) \<le> length (online_use' sp)"
    "nat (sint num_samps) \<le> length signal" using p n bufs by simp_all
  obtain dest' where
    loop: "Frame_loop FrameForIndex_spec signal num_samps stride k (word_of_nat 0) (sp, dest) =
        Inr (sp\<lparr>online_use' := write_at (online_use' sp) 0 (drop (K * S) ?stream),
                prev_discard_size' := word_of_nat (length (drop (K * S) ?stream))\<rparr>, dest')"
    and len': "length dest' = length dest"
    and frames: "\<forall>t'. 0 \<le> t' \<and> t' < K \<longrightarrow> frame_at dest' st L t' = frame_at ?stream S L t'"
    using Frame_loop_spec [OF nf kK st L(1) S(1) bufs' holds tail K31 K0 room] by blast
  have "FrameSplitter_Frame FrameForIndex_spec sp signal num_samps dest stride =
       Inr (k, sp\<lparr>online_use' := write_at (online_use' sp) 0 (drop (K * S) ?stream),
                  prev_discard_size' := word_of_nat (length (drop (K * S) ?stream))\<rparr>,
            dest', [])"
    using assert nf loop by (simp add: FrameSplitter_Frame_def ASSERT_def)
  with kK len' frames show ?thesis by blast
qed

text \<open>
  C2, as amended. A fresh splitter with \<open>0 < frame_shift \<le> frame_length\<close>; a signal
  \<open>xs @ ys\<close> given in two calls of \<open>Frame\<close>, \<open>xs\<close> then \<open>ys\<close>, where \<open>xs\<close> holds
  at least one frame and the samples carried over from \<open>xs\<close> together with \<open>ys\<close> hold
  at least one frame; destinations with room for the frames. Then both calls and
  the batch call on \<open>xs @ ys\<close> return, the two counts add up to the batch count
  \<open>(length (xs @ ys) - frame_length) div frame_shift + 1\<close>, frame \<open>t\<close> of the first call
  is frame \<open>t\<close> of the batch call, frame \<open>t\<close> of the second call is frame
  \<open>K1 + t\<close> of the batch call, sample for sample, and the incremental calls and the
  batch call carry the same tail over.
\<close>

theorem incremental_equals_batch:
  assumes sp: "prev_discard_size' sp = 0"
    and S: "S = nat (sint (frame_shift (frame_opts' sp)))" "0 < S"
    and L: "L = nat (sint (frame_length (frame_opts' sp)))" "S \<le> L"
    and online: "L \<le> length (online_use' sp)"
    and n1: "sint n1 = int (length xs)" and n2: "sint n2 = int (length ys)"
    and n: "sint n = int (length xs + length ys)"
    and first: "L \<le> length xs"
    and K1: "K1 = (length xs - L) div S + 1"
    and second: "L + K1 * S \<le> length xs + length ys"
    and K: "K = (length xs + length ys - L) div S + 1"
    and st: "sint stride = int st" "L \<le> st" "st * K < 2 ^ 31"
    and room: "(K - 1) * st + L \<le> length d1" "(K - 1) * st + L \<le> length d2"
      "(K - 1) * st + L \<le> length d"
  shows "\<exists>k1 sp1 d1' k2 sp2 d2' k sp' d'.
      FrameSplitter_Frame FrameForIndex_spec sp xs n1 d1 stride = Inr (k1, sp1, d1', []) \<and>
      FrameSplitter_Frame FrameForIndex_spec sp1 ys n2 d2 stride = Inr (k2, sp2, d2', []) \<and>
      FrameSplitter_Frame FrameForIndex_spec sp (xs @ ys) n d stride = Inr (k, sp', d', []) \<and>
      sint k1 + sint k2 = sint k \<and> sint k1 = int K1 \<and> sint k = int K \<and>
      (\<forall>t < K1. frame_at d1' st L t = frame_at d' st L t) \<and>
      (\<forall>t. K1 + t < K \<longrightarrow> frame_at d2' st L t = frame_at d' st L (K1 + t)) \<and>
      prev_discard_size' sp2 = prev_discard_size' sp' \<and>
      take (nat (sint (prev_discard_size' sp2))) (online_use' sp2) =
        take (nat (sint (prev_discard_size' sp'))) (online_use' sp')"
proof -
  let ?zs = "xs @ ys"
  have small: "length xs + length ys < 2 ^ 31"
    using n sint_lt [of n] by simp
  have p0: "sint (prev_discard_size' sp) = int 0" using sp by simp
  have a: "K1 * S \<le> length xs + length ys - L" using second by linarith
  let ?K2 = "(length xs + length ys - L - K1 * S) div S + 1"
  have KK: "K = K1 + ?K2" unfolding K using count_splits [OF S(2) a] .
  have K1le: "K1 \<le> K" using KK by simp
  have "(length xs - L) div S * S \<le> length xs - L" by simp
  then have "(length xs - L) div S * S + L \<le> length xs" using first by linarith
  then have h1: "(K1 - 1) * S + L \<le> length xs" using K1 by simp
  then have K1S: "K1 * S \<le> length xs" using K1 L(2) by (simp add: algebra_simps)
  have "length xs - L < S + S * ((length xs - L) div S)"
    using S(2) by (rule dividend_less_times_div)
  also have "\<dots> = K1 * S" unfolding K1 by (simp add: algebra_simps)
  finally have t1lt: "length xs - K1 * S < L" using first S(2) L(2) by linarith
  \<comment> \<open>the first call\<close>
  have stream1: "stream_of sp xs n1 = xs" using sp n1 by (simp add: stream_of_def)
  have "st * K1 \<le> st * K" using K1le by simp
  then have st1: "st * K1 < 2 ^ 31" using st(3) by linarith
  have "(K1 - 1) * st \<le> (K - 1) * st" using K1le by (intro mult_le_mono1) simp
  then have room1: "(K1 - 1) * st + L \<le> length d1" using room(1) by linarith
  let ?tail1 = "drop (K1 * S) xs"
  let ?sp1 = "sp\<lparr>online_use' := write_at (online_use' sp) 0 ?tail1,
                 prev_discard_size' := word_of_nat (length ?tail1)\<rparr>"
  have "\<exists>k dest'.
     FrameSplitter_Frame FrameForIndex_spec sp xs n1 d1 stride =
       Inr (k, sp\<lparr>online_use' :=
                    write_at (online_use' sp) 0 (drop (K1 * S) (stream_of sp xs n1)),
                  prev_discard_size' :=
                    word_of_nat (length (drop (K1 * S) (stream_of sp xs n1)))\<rparr>,
            dest', []) \<and>
     sint k = int K1 \<and> length dest' = length d1 \<and>
     (\<forall>t < K1. frame_at dest' st L t = frame_at (stream_of sp xs n1) S L t)"
  proof (rule Frame_spec_call [OF S L p0 n1 _ _ online _ _ _ st(1,2) st1 room1])
    show "0 \<le> length (online_use' sp)" by simp
    show "length xs \<le> length xs" by simp
    show "L \<le> 0 + length xs" using first by simp
    show "0 + length xs < 2 ^ 31" using small by simp
    show "K1 = (0 + length xs - L) div S + 1" using K1 by simp
  qed
  then obtain k1 d1' where
    c1: "FrameSplitter_Frame FrameForIndex_spec sp xs n1 d1 stride = Inr (k1, ?sp1, d1', [])"
    and k1: "sint k1 = int K1"
    and f1: "\<forall>t < K1. frame_at d1' st L t = frame_at xs S L t"
    unfolding stream1 by blast
  have lt1: "length ?tail1 = length xs - K1 * S" by simp
  have lt1L: "length ?tail1 \<le> length (online_use' sp)" using t1lt online by simp
  have lon1: "length (online_use' ?sp1) = length (online_use' sp)"
    using lt1L by (simp add: length_write_at)
  have lt31: "length ?tail1 < 2 ^ 31" using small by simp
  have p1: "sint (prev_discard_size' ?sp1) = int (length ?tail1)"
    using lt31 by (rule carried_prev)
  have "stream_of ?sp1 ys n2 = ?tail1 @ ys"
    using lt31 lt1L n2 by (rule carried_stream)
  then have stream2: "stream_of ?sp1 ys n2 = drop (K1 * S) ?zs"
    using K1S by simp
  \<comment> \<open>the second call\<close>
  have S1: "S = nat (sint (frame_shift (frame_opts' ?sp1)))" by (simp add: S(1))
  have L1: "L = nat (sint (frame_length (frame_opts' ?sp1)))" by (simp add: L(1))
  have "st * ?K2 \<le> st * K" unfolding KK by simp
  then have st2: "st * ?K2 < 2 ^ 31" using st(3) by linarith
  have "?K2 - 1 \<le> K - 1" unfolding KK by simp
  then have "(?K2 - 1) * st \<le> (K - 1) * st" by (rule mult_le_mono1)
  then have room2: "(?K2 - 1) * st + L \<le> length d2" using room(2) by linarith
  have "\<exists>k dest'.
     FrameSplitter_Frame FrameForIndex_spec ?sp1 ys n2 d2 stride =
       Inr (k, ?sp1\<lparr>online_use' :=
                    write_at (online_use' ?sp1) 0 (drop (?K2 * S) (stream_of ?sp1 ys n2)),
                  prev_discard_size' :=
                    word_of_nat (length (drop (?K2 * S) (stream_of ?sp1 ys n2)))\<rparr>,
            dest', []) \<and>
     sint k = int ?K2 \<and> length dest' = length d2 \<and>
     (\<forall>t < ?K2. frame_at dest' st L t = frame_at (stream_of ?sp1 ys n2) S L t)"
  proof (rule Frame_spec_call [OF S1 S(2) L1 L(2) p1 n2 _ _ _ _ _ _ st(1,2) st2 room2])
    show "length ?tail1 \<le> length (online_use' ?sp1)" using lt1L lon1 by simp
    show "length ys \<le> length ys" by simp
    show "L \<le> length (online_use' ?sp1)" using online lon1 by simp
    show "L \<le> length ?tail1 + length ys" using second K1S by simp
    show "length ?tail1 + length ys < 2 ^ 31" using small by simp
    show "?K2 = (length ?tail1 + length ys - L) div S + 1"
      using K1S by (simp add: algebra_simps)
  qed
  then obtain k2 d2' where
    c2: "FrameSplitter_Frame FrameForIndex_spec ?sp1 ys n2 d2 stride =
       Inr (k2, ?sp1\<lparr>online_use' :=
                      write_at (online_use' ?sp1) 0 (drop (?K2 * S) (drop (K1 * S) ?zs)),
                    prev_discard_size' :=
                      word_of_nat (length (drop (?K2 * S) (drop (K1 * S) ?zs)))\<rparr>, d2', [])"
    and k2: "sint k2 = int ?K2"
    and f2: "\<forall>t < ?K2. frame_at d2' st L t = frame_at (drop (K1 * S) ?zs) S L t"
    unfolding stream2 by blast
  \<comment> \<open>the batch call\<close>
  have stream: "stream_of sp ?zs n = ?zs" using sp n by (simp add: stream_of_def)
  have enough: "L \<le> length xs + length ys" using first by simp
  have "\<exists>k dest'.
     FrameSplitter_Frame FrameForIndex_spec sp ?zs n d stride =
       Inr (k, sp\<lparr>online_use' :=
                    write_at (online_use' sp) 0 (drop (K * S) (stream_of sp ?zs n)),
                  prev_discard_size' :=
                    word_of_nat (length (drop (K * S) (stream_of sp ?zs n)))\<rparr>,
            dest', []) \<and>
     sint k = int K \<and> length dest' = length d \<and>
     (\<forall>t < K. frame_at dest' st L t = frame_at (stream_of sp ?zs n) S L t)"
  proof (rule Frame_spec_call [OF S L p0 _ _ _ online _ _ _ st room(3)])
    show "sint n = int (length xs + length ys)" by (fact n)
    show "0 \<le> length (online_use' sp)" by simp
    show "length xs + length ys \<le> length ?zs" by simp
    show "L \<le> 0 + (length xs + length ys)" using enough by simp
    show "0 + (length xs + length ys) < 2 ^ 31" using small by simp
    show "K = (0 + (length xs + length ys) - L) div S + 1" using K by simp
  qed
  then obtain k d' where
    c: "FrameSplitter_Frame FrameForIndex_spec sp ?zs n d stride =
       Inr (k, sp\<lparr>online_use' := write_at (online_use' sp) 0 (drop (K * S) ?zs),
                  prev_discard_size' := word_of_nat (length (drop (K * S) ?zs))\<rparr>, d', [])"
    and k: "sint k = int K"
    and f: "\<forall>t < K. frame_at d' st L t = frame_at ?zs S L t"
    unfolding stream by blast
  \<comment> \<open>the frames and the carried tail\<close>
  have frames1: "\<forall>t < K1. frame_at d1' st L t = frame_at d' st L t"
  proof (intro allI impI)
    fix t assume t: "t < K1"
    have "t * S \<le> (K1 - 1) * S" using t by (intro mult_le_mono1) simp
    then have "t * S + L \<le> length xs" using h1 by linarith
    then have "frame_at ?zs S L t = frame_at xs S L t" by (rule frame_at_append)
    moreover have "t < K" using t K1le by simp
    ultimately show "frame_at d1' st L t = frame_at d' st L t" using f1 f t by simp
  qed
  have frames2: "\<forall>t. K1 + t < K \<longrightarrow> frame_at d2' st L t = frame_at d' st L (K1 + t)"
  proof (intro allI impI)
    fix t assume t: "K1 + t < K"
    have "t < ?K2" using t unfolding KK by simp
    with f2 have "frame_at d2' st L t = frame_at (drop (K1 * S) ?zs) S L t" by simp
    also have "\<dots> = frame_at ?zs S L (K1 + t)" by (rule frame_at_drop)
    also have "\<dots> = frame_at d' st L (K1 + t)" using f t by simp
    finally show "frame_at d2' st L t = frame_at d' st L (K1 + t)" .
  qed
  have sum: "?K2 * S + K1 * S = K * S" unfolding KK by (simp add: algebra_simps)
  have "drop (?K2 * S) (drop (K1 * S) ?zs) = drop (?K2 * S + K1 * S) ?zs"
    by (rule drop_drop)
  then have tails: "drop (?K2 * S) (drop (K1 * S) ?zs) = drop (K * S) ?zs"
    unfolding sum .
  let ?tail = "drop (K * S) ?zs"
  let ?sp2 = "?sp1\<lparr>online_use' := write_at (online_use' ?sp1) 0 ?tail,
                   prev_discard_size' := word_of_nat (length ?tail)\<rparr>"
  let ?sp' = "sp\<lparr>online_use' := write_at (online_use' sp) 0 ?tail,
                  prev_discard_size' := word_of_nat (length ?tail)\<rparr>"
  have c2': "FrameSplitter_Frame FrameForIndex_spec ?sp1 ys n2 d2 stride = Inr (k2, ?sp2, d2', [])"
    using c2 unfolding tails .
  have "length xs + length ys - L < S + S * ((length xs + length ys - L) div S)"
    using S(2) by (rule dividend_less_times_div)
  also have "\<dots> = K * S" unfolding K by (simp add: algebra_simps)
  finally have "length xs + length ys - K * S < L" using enough S(2) L(2) by linarith
  then have "length ?tail < L" by simp
  then have ltL: "length ?tail \<le> length (online_use' sp)" using online by simp
  have t31: "length ?tail < 2 ^ 31" using small by simp
  have ltL1: "length ?tail \<le> length (online_use' ?sp1)" using ltL lon1 by simp
  have "take (nat (sint (prev_discard_size' ?sp2))) (online_use' ?sp2) = ?tail"
    using t31 ltL1 by (rule carried_tail)
  moreover have "take (nat (sint (prev_discard_size' ?sp'))) (online_use' ?sp') = ?tail"
    using t31 ltL by (rule carried_tail)
  ultimately have carried: "take (nat (sint (prev_discard_size' ?sp2))) (online_use' ?sp2) =
        take (nat (sint (prev_discard_size' ?sp'))) (online_use' ?sp')"
    by (simp only:)
  have same: "prev_discard_size' ?sp2 = prev_discard_size' ?sp'" by simp
  have count: "sint k1 + sint k2 = sint k" using k1 k2 k unfolding KK by simp
  show ?thesis
    using c1 c2' c count k1 k frames1 frames2 same carried by blast
qed

text \<open>
  Default frame options, 1000 samples in two calls of 500: one frame, then three;
  the batch call extracts four.
\<close>

theorem incremental_equals_batch_witness:
  "\<exists>k1 sp1 d1' k2 sp2 d2' k sp' d'.
      FrameSplitter_Frame FrameForIndex_spec
        \<lparr>frame_opts' = FrameOpts_default, window' = Some (Float32_array 400), online_use' = Float32_array 800,
         prev_discard_size' = 0\<rparr>
        (replicate 500 (Finite 1)) 500 (Float32_array 1600) 400 = Inr (k1, sp1, d1', []) \<and>
      FrameSplitter_Frame FrameForIndex_spec sp1 (replicate 500 (Finite 2)) 500
        (Float32_array 1600) 400 = Inr (k2, sp2, d2', []) \<and>
      FrameSplitter_Frame FrameForIndex_spec
        \<lparr>frame_opts' = FrameOpts_default, window' = Some (Float32_array 400), online_use' = Float32_array 800,
         prev_discard_size' = 0\<rparr>
        (replicate 500 (Finite 1) @ replicate 500 (Finite 2)) 1000 (Float32_array 1600) 400
        = Inr (k, sp', d', []) \<and>
      sint k1 + sint k2 = sint k \<and> sint k1 = 1 \<and> sint k = 4 \<and>
      (\<forall>t < 1. frame_at d1' 400 400 t = frame_at d' 400 400 t) \<and>
      (\<forall>t. 1 + t < 4 \<longrightarrow> frame_at d2' 400 400 t = frame_at d' 400 400 (1 + t)) \<and>
      prev_discard_size' sp2 = prev_discard_size' sp' \<and>
      take (nat (sint (prev_discard_size' sp2))) (online_use' sp2) =
        take (nat (sint (prev_discard_size' sp'))) (online_use' sp')"
proof -
  let ?sp = "\<lparr>frame_opts' = FrameOpts_default, window' = Some (Float32_array 400), online_use' = Float32_array 800,
         prev_discard_size' = 0\<rparr>"
  let ?xs = "replicate 500 (Finite 1)" and ?ys = "replicate 500 (Finite 2)"
  have sp: "prev_discard_size' ?sp = 0" by simp
  have S: "(160 :: nat) = nat (sint (frame_shift (frame_opts' ?sp)))" "(0 :: nat) < 160"
    by (simp_all add: FrameOpts_default_def FrameOpts_new_def)
  have L: "(400 :: nat) = nat (sint (frame_length (frame_opts' ?sp)))" "(160 :: nat) \<le> 400"
    by (simp_all add: FrameOpts_default_def FrameOpts_new_def)
  have online: "400 \<le> length (online_use' ?sp)" by simp
  have n1: "sint (500 :: Int32) = int (length ?xs)" by simp
  have n2: "sint (500 :: Int32) = int (length ?ys)" by simp
  have n: "sint (1000 :: Int32) = int (length ?xs + length ?ys)" by simp
  have first: "400 \<le> length ?xs" by simp
  have K1: "(1 :: nat) = (length ?xs - 400) div 160 + 1" by simp
  have second: "400 + 1 * 160 \<le> length ?xs + length ?ys" by simp
  have K: "(4 :: nat) = (length ?xs + length ?ys - 400) div 160 + 1" by simp
  have st: "sint (400 :: Int32) = int 400" "(400 :: nat) \<le> 400" "(400 :: nat) * 4 < 2 ^ 31"
    by simp_all
  have room: "(4 - 1) * 400 + 400 \<le> length (Float32_array 1600)" by simp
  show ?thesis
    using incremental_equals_batch [OF sp S L online n1 n2 n first K1 second K st room room room]
    by simp
qed

text \<open>
  The claim as stated fails for a first chunk that holds no frame. Default frame
  options, 80 samples and then 400: for the 80 samples \<open>NumFrames\<close> is
  \<open>(80 - 400) / 160 + 1 = -1\<close>, \<open>Frame\<close> calls nothing and the splitter carries
  nothing over, so the only frame of the second call is its own 400 samples. The
  batch call on the 480 samples extracts one frame too, the 80 samples followed by
  the first 320 of the rest.
\<close>

lemma NumFrames_400:
  "FrameSplitter_NumFrames
     \<lparr>frame_opts' = FrameOpts_default, window' = w, online_use' = u, prev_discard_size' = 0\<rparr>
     400 = Inr (1, [])"
  by (simp add: FrameSplitter_NumFrames_def FrameOpts_default_def FrameOpts_new_def
      Int32_div_numeral)

lemma NumFrames_default:
  "FrameSplitter_NumFrames
     \<lparr>frame_opts' = FrameOpts_default, window' = w, online_use' = u, prev_discard_size' = 0\<rparr>
     80 = Inr (- 1, [])"
  "FrameSplitter_NumFrames
     \<lparr>frame_opts' = FrameOpts_default, window' = w, online_use' = u, prev_discard_size' = 0\<rparr>
     480 = Inr (1, [])"
  by (simp_all add: FrameSplitter_NumFrames_def FrameOpts_default_def FrameOpts_new_def
      Int32_div_numeral)

lemma FrameForIndex_spec_400:
  "FrameForIndex_spec
     \<lparr>frame_opts' = FrameOpts_default, window' = w, online_use' = Float32_array 800,
      prev_discard_size' = 0\<rparr>
     (replicate 400 (Finite 2)) 400 0 (Float32_array 400) 0 =
   Inr (\<lparr>frame_opts' = FrameOpts_default, window' = w,
         online_use' = replicate 240 (Finite 2) @ replicate 560 (Finite 0),
         prev_discard_size' = 240\<rparr>,
        replicate 400 (Finite 2))"
  by (simp add: FrameForIndex_spec_def NumFrames_400 stream_of_def Let_def)
    (simp add: FrameOpts_default_def FrameOpts_new_def Float32_array_def write_at_def)

lemma FrameForIndex_spec_480:
  "FrameForIndex_spec
     \<lparr>frame_opts' = FrameOpts_default, window' = w, online_use' = Float32_array 800,
      prev_discard_size' = 0\<rparr>
     (replicate 80 (Finite 1) @ replicate 400 (Finite 2)) 480 0 (Float32_array 400) 0 =
   Inr (\<lparr>frame_opts' = FrameOpts_default, window' = w,
         online_use' = replicate 320 (Finite 2) @ replicate 480 (Finite 0),
         prev_discard_size' = 320\<rparr>,
        replicate 80 (Finite 1) @ replicate 320 (Finite 2))"
  by (simp add: FrameForIndex_spec_def NumFrames_default stream_of_def Let_def)
    (simp add: FrameOpts_default_def FrameOpts_new_def Float32_array_def write_at_def)

theorem incremental_short_first_chunk:
  "FrameSplitter_new externals_example FrameOpts_default =
     Inr \<lparr>frame_opts' = FrameOpts_default, window' = Some (Float32_array 400),
          online_use' = Float32_array 800, prev_discard_size' = 0\<rparr>
   \<and> FrameSplitter_Frame FrameForIndex_spec
     \<lparr>frame_opts' = FrameOpts_default, window' = Some (Float32_array 400), online_use' = Float32_array 800,
      prev_discard_size' = 0\<rparr>
     (replicate 80 (Finite 1)) 80 (Float32_array 400) 400 =
     Inr (- 1, \<lparr>frame_opts' = FrameOpts_default, window' = Some (Float32_array 400),
                online_use' = Float32_array 800, prev_discard_size' = 0\<rparr>,
          Float32_array 400, [])
   \<and> FrameSplitter_Frame FrameForIndex_spec
     \<lparr>frame_opts' = FrameOpts_default, window' = Some (Float32_array 400), online_use' = Float32_array 800,
      prev_discard_size' = 0\<rparr>
     (replicate 400 (Finite 2)) 400 (Float32_array 400) 400 =
     Inr (1, \<lparr>frame_opts' = FrameOpts_default, window' = Some (Float32_array 400),
              online_use' = replicate 240 (Finite 2) @ replicate 560 (Finite 0),
              prev_discard_size' = 240\<rparr>,
          replicate 400 (Finite 2), [])
   \<and> FrameSplitter_Frame FrameForIndex_spec
     \<lparr>frame_opts' = FrameOpts_default, window' = Some (Float32_array 400), online_use' = Float32_array 800,
      prev_discard_size' = 0\<rparr>
     (replicate 80 (Finite 1) @ replicate 400 (Finite 2)) 480 (Float32_array 400) 400 =
     Inr (1, \<lparr>frame_opts' = FrameOpts_default, window' = Some (Float32_array 400),
              online_use' = replicate 320 (Finite 2) @ replicate 480 (Finite 0),
              prev_discard_size' = 320\<rparr>,
          replicate 80 (Finite 1) @ replicate 320 (Finite 2), [])
   \<and> replicate 400 (Finite 2) \<noteq> replicate 80 (Finite 1) @ replicate 320 (Finite 2)"
proof (intro conjI)
  let ?sp0 = "\<lparr>frame_opts' = FrameOpts_default, window' = Some (Float32_array 400),
      online_use' = Float32_array 800, prev_discard_size' = 0\<rparr>"
  show "FrameSplitter_new externals_example FrameOpts_default = Inr ?sp0"
    by (rule default_splitter)
  have len: "frame_length (frame_opts' ?sp0) \<le>s 400"
    by (simp add: FrameOpts_default_def FrameOpts_new_def)
  show "FrameSplitter_Frame FrameForIndex_spec ?sp0 (replicate 80 (Finite 1)) 80
          (Float32_array 400) 400 = Inr (- 1, ?sp0, Float32_array 400, [])"
    using NumFrames_default(1) [of "Some (Float32_array 400)" "Float32_array 800"] len
    by (intro Frame_no_frames) simp_all
  show "FrameSplitter_Frame FrameForIndex_spec ?sp0 (replicate 400 (Finite 2)) 400
          (Float32_array 400) 400 =
     Inr (1, \<lparr>frame_opts' = FrameOpts_default, window' = Some (Float32_array 400),
              online_use' = replicate 240 (Finite 2) @ replicate 560 (Finite 0),
              prev_discard_size' = 240\<rparr>,
          replicate 400 (Finite 2), [])"
    using len
    by (simp add: FrameSplitter_Frame_def ASSERT_def NumFrames_400 Frame_loop_step
        Frame_loop_done FrameForIndex_spec_400 word_sless_alt)
  show "FrameSplitter_Frame FrameForIndex_spec ?sp0
          (replicate 80 (Finite 1) @ replicate 400 (Finite 2)) 480 (Float32_array 400) 400 =
     Inr (1, \<lparr>frame_opts' = FrameOpts_default, window' = Some (Float32_array 400),
              online_use' = replicate 320 (Finite 2) @ replicate 480 (Finite 0),
              prev_discard_size' = 320\<rparr>,
          replicate 80 (Finite 1) @ replicate 320 (Finite 2), [])"
    using len
    by (simp add: FrameSplitter_Frame_def ASSERT_def NumFrames_default Frame_loop_step
        Frame_loop_done FrameForIndex_spec_480 word_sless_alt)
  have "hd (replicate 400 (Finite 2)) \<noteq> hd (replicate 80 (Finite 1) @ replicate 320 (Finite 2))"
    by simp
  then show "replicate 400 (Finite 2) \<noteq> replicate 80 (Finite 1) @ replicate 320 (Finite 2)"
    by metis
qed

text \<open>
  A second chunk that leaves fewer samples than a frame runs into the truncating
  division of \<open>NumFrames\<close>. Default frame options, 500 samples split into 400 and 100: the
  first call extracts one frame and carries the 240 samples from position 160 on;
  for the second call \<open>NumFrames\<close> computes \<open>(100 + 240 - 400) / 160 + 1 = 1\<close>, a
  frame that the 340 samples at hand cannot fill, and \<open>Frame\<close> asks
  \<open>FrameForIndex\<close> for it. The batch call on the 500 samples counts 1 frame, the
  two incremental calls count 2.
\<close>

lemma FrameForIndex_spec_first_chunk:
  "FrameForIndex_spec
     \<lparr>frame_opts' = FrameOpts_default, window' = w, online_use' = Float32_array 800,
      prev_discard_size' = 0\<rparr>
     (replicate 400 (Finite 1)) 400 0 (Float32_array 400) 0 =
   Inr (\<lparr>frame_opts' = FrameOpts_default, window' = w,
         online_use' = replicate 240 (Finite 1) @ replicate 560 (Finite 0),
         prev_discard_size' = 240\<rparr>,
        replicate 400 (Finite 1))"
  by (simp add: FrameForIndex_spec_def NumFrames_400 stream_of_def Let_def)
    (simp add: FrameOpts_default_def FrameOpts_new_def Float32_array_def write_at_def)

lemma incremental_count_differs:
  "FrameSplitter_Frame FrameForIndex_spec
     \<lparr>frame_opts' = FrameOpts_default, window' = Some (Float32_array 400), online_use' = Float32_array 800,
      prev_discard_size' = 0\<rparr>
     (replicate 400 (Finite 1)) 400 (Float32_array 400) 400 =
     Inr (1, \<lparr>frame_opts' = FrameOpts_default, window' = Some (Float32_array 400),
              online_use' = replicate 240 (Finite 1) @ replicate 560 (Finite 0),
              prev_discard_size' = 240\<rparr>,
          replicate 400 (Finite 1), [])
   \<and> FrameSplitter_NumFrames
       \<lparr>frame_opts' = FrameOpts_default, window' = Some (Float32_array 400),
        online_use' = replicate 240 (Finite 1) @ replicate 560 (Finite 0),
        prev_discard_size' = 240\<rparr> 100 = Inr (1, [])
   \<and> FrameSplitter_Frame FrameForIndex_spec
       \<lparr>frame_opts' = FrameOpts_default, window' = Some (Float32_array 400),
        online_use' = replicate 240 (Finite 1) @ replicate 560 (Finite 0),
        prev_discard_size' = 240\<rparr>
       (replicate 100 (Finite 1)) 100 (Float32_array 400) 400 = Inl OutOfRange
   \<and> FrameSplitter_NumFrames
       \<lparr>frame_opts' = FrameOpts_default, window' = Some (Float32_array 400), online_use' = Float32_array 800,
        prev_discard_size' = 0\<rparr> 500 = Inr (1, [])"
proof (intro conjI)
  let ?sp0 = "\<lparr>frame_opts' = FrameOpts_default, window' = Some (Float32_array 400), online_use' = Float32_array 800,
      prev_discard_size' = 0\<rparr>"
  let ?sp1 = "\<lparr>frame_opts' = FrameOpts_default, window' = Some (Float32_array 400),
        online_use' = replicate 240 (Finite 1) @ replicate 560 (Finite 0),
        prev_discard_size' = 240\<rparr>"
  have len: "frame_length FrameOpts_default \<le>s 400"
    by (simp add: FrameOpts_default_def FrameOpts_new_def)
  show "FrameSplitter_Frame FrameForIndex_spec ?sp0 (replicate 400 (Finite 1)) 400
          (Float32_array 400) 400 = Inr (1, ?sp1, replicate 400 (Finite 1), [])"
    using len
    by (simp add: FrameSplitter_Frame_def ASSERT_def NumFrames_400 Frame_loop_step
        Frame_loop_done FrameForIndex_spec_first_chunk word_sless_alt)
  show n1: "FrameSplitter_NumFrames ?sp1 100 = Inr (1, [])"
    by (simp add: FrameSplitter_NumFrames_def FrameOpts_default_def FrameOpts_new_def
        Int32_div_numeral)
  have "FrameForIndex_spec ?sp1 (replicate 100 (Finite 1)) 100 0 (Float32_array 400) 0
        = Inl OutOfRange"
    by (simp add: FrameForIndex_spec_def n1 stream_of_def Let_def)
      (simp add: FrameOpts_default_def FrameOpts_new_def)
  then show "FrameSplitter_Frame FrameForIndex_spec ?sp1 (replicate 100 (Finite 1)) 100
          (Float32_array 400) 400 = Inl OutOfRange"
    using len
    by (simp add: FrameSplitter_Frame_def ASSERT_def n1 Frame_loop_step word_sless_alt)
  show "FrameSplitter_NumFrames ?sp0 500 = Inr (1, [])"
    by (simp add: FrameSplitter_NumFrames_def FrameOpts_default_def FrameOpts_new_def
        Int32_div_numeral)
qed

end
